theory Spec2Isabelle
  imports Main
begin

section \<open>JavaScript values used by the sources\<close>

text \<open>
  Optional strings (\<^verbatim>\<open>project?: string\<close>) are \<open>string option\<close>, with \<open>None\<close> for
  \<^verbatim>\<open>undefined\<close>. Numbers are modelled as integers: the sources only compare, select,
  multiply and subtract them, which is exact on IEEE doubles below \<open>2^53\<close>.
\<close>

abbreviation dquote :: char where
  "dquote \<equiv> CHR 0x22"

abbreviation backslash :: char where
  "backslash \<equiv> CHR 0x5C"

text \<open>Truthiness of an optional string: \<^verbatim>\<open>undefined\<close> and \<^verbatim>\<open>""\<close> are falsy.\<close>

definition truthy :: "string option \<Rightarrow> bool" where
  "truthy v = (case v of None \<Rightarrow> False | Some s \<Rightarrow> s \<noteq> [])"

text \<open>\<^verbatim>\<open>a || d\<close> on an optional string with a string default.\<close>

definition or_str :: "string option \<Rightarrow> string \<Rightarrow> string" where
  "or_str v d = (case v of None \<Rightarrow> d | Some s \<Rightarrow> if s \<noteq> [] then s else d)"

text \<open>
  \<^verbatim>\<open>a || d\<close> on an optional number with a number default: \<^verbatim>\<open>undefined\<close> and
  \<^verbatim>\<open>0\<close> are falsy.
\<close>

definition or_num :: "int option \<Rightarrow> int \<Rightarrow> int" where
  "or_num v d = (case v of None \<Rightarrow> d | Some n \<Rightarrow> if n \<noteq> 0 then n else d)"

text \<open>A value inside a template literal: \<^verbatim>\<open>`${v}`\<close>.\<close>

definition template_str :: "string option \<Rightarrow> string" where
  "template_str v = (case v of None \<Rightarrow> ''undefined'' | Some s \<Rightarrow> s)"

text \<open>\<^verbatim>\<open>Array.prototype.join\<close>.\<close>

fun join :: "string \<Rightarrow> string list \<Rightarrow> string" where
  "join sep [] = []"
| "join sep [x] = x"
| "join sep (x # y # ys) = x @ sep @ join sep (y # ys)"

text \<open>Decimal rendering of an integer, as a template literal prints a number.\<close>

definition digit_char :: "nat \<Rightarrow> char" where
  "digit_char d = ''0123456789'' ! d"

fun show_nat :: "nat \<Rightarrow> string" where
  "show_nat n = (if n < 10 then [digit_char n] else show_nat (n div 10) @ [digit_char (n mod 10)])"

declare show_nat.simps [simp del]

definition show_int :: "int \<Rightarrow> string" where
  "show_int i = (if i < 0 then CHR ''-'' # show_nat (nat (- i)) else show_nat (nat i))"

section \<open>The MCP server: \<^verbatim>\<open>src/mcp/log-mcp-server.ts\<close>\<close>

subsection \<open>parseDuration\<close>

definition is_digit :: "char \<Rightarrow> bool" where
  "is_digit c = (c \<in> set ''0123456789'')"

definition is_unit_letter :: "char \<Rightarrow> bool" where
  "is_unit_letter c = (c \<in> set ''smhd'')"

text \<open>
  \<^verbatim>\<open>s.match(/^(\d+)(s|m|h|d)$/)\<close>: the two groups when the whole string is one or more
  digits followed by one unit letter, \<open>None\<close> (JavaScript's \<^verbatim>\<open>null\<close>) otherwise.
\<close>

definition match_duration :: "string \<Rightarrow> (string \<times> char) option" where
  "match_duration s =
     (case rev s of
        [] \<Rightarrow> None
      | u # r \<Rightarrow> if r \<noteq> [] \<and> list_all is_digit r \<and> is_unit_letter u then Some (rev r, u) else None)"

definition digit_val :: "char \<Rightarrow> int" where
  "digit_val c = of_char c - 48"

text \<open>\<^verbatim>\<open>parseInt\<close> on a string of decimal digits.\<close>

definition parseInt :: "string \<Rightarrow> int" where
  "parseInt ds = foldl (\<lambda>a c. 10 * a + digit_val c) 0 ds"

definition units :: "char \<Rightarrow> int option" where
  "units = map_of [(CHR ''s'', 1000), (CHR ''m'', 60000), (CHR ''h'', 3600000), (CHR ''d'', 86400000)]"

definition parseDuration :: "string \<Rightarrow> int" where
  "parseDuration s =
     (case match_duration s of
        None \<Rightarrow> 3600000
      | Some (ds, u) \<Rightarrow> parseInt ds * or_num (units u) 0)"

subsection \<open>buildFilter\<close>

record filter_opts =
  opt_project :: "string option"
  opt_level :: "string option"
  opt_traceId :: "string option"
  opt_environment :: "string option"
  opt_since :: "string option"
  opt_extraFilter :: "string option"

text \<open>\<^verbatim>\<open>if (c) parts.push(p)\<close>, with the array passed along.\<close>

definition push_if :: "bool \<Rightarrow> string \<Rightarrow> string list \<Rightarrow> string list" where
  "push_if c p parts = (if c then parts @ [p] else parts)"

text \<open>What one conditional push adds to the array.\<close>

definition clause_if :: "bool \<Rightarrow> string \<Rightarrow> string list" where
  "clause_if c p = (if c then [p] else [])"

text \<open>The template \<^verbatim>\<open>`field = "${v}"`\<close>.\<close>

definition eq_clause :: "string \<Rightarrow> string option \<Rightarrow> string" where
  "eq_clause field v = field @ '' = '' @ [dquote] @ template_str v @ [dquote]"

text \<open>The template \<^verbatim>\<open>`timestampMs > ${cutoff}`\<close> with the cutoff of \<^verbatim>\<open>buildFilter\<close>.\<close>

definition since_clause :: "int \<Rightarrow> string option \<Rightarrow> string" where
  "since_clause now v =
     (let cutoff = now - parseDuration (template_str v) in ''timestampMs > '' @ show_int cutoff)"

text \<open>
  The array \<^verbatim>\<open>parts\<close> of \<^verbatim>\<open>buildFilter\<close> after the six conditional pushes; \<open>now\<close> is
  the value of \<^verbatim>\<open>Date.now()\<close>.
\<close>

definition buildFilter_parts :: "int \<Rightarrow> filter_opts \<Rightarrow> string list" where
  "buildFilter_parts now opts =
     (let parts = [];
          parts = push_if (truthy (opt_project opts)) (eq_clause ''project'' (opt_project opts)) parts;
          parts = push_if (truthy (opt_level opts)) (eq_clause ''level'' (opt_level opts)) parts;
          parts = push_if (truthy (opt_traceId opts)) (eq_clause ''traceId'' (opt_traceId opts)) parts;
          parts = push_if (truthy (opt_environment opts))
                    (eq_clause ''environment'' (opt_environment opts)) parts;
          parts = push_if (truthy (opt_since opts)) (since_clause now (opt_since opts)) parts;
          parts = push_if (truthy (opt_extraFilter opts)) (template_str (opt_extraFilter opts)) parts
      in parts)"

definition buildFilter :: "int \<Rightarrow> filter_opts \<Rightarrow> string option" where
  "buildFilter now opts =
     (let parts = buildFilter_parts now opts
      in if length parts \<noteq> 0 then Some (join '' AND '' parts) else None)"

subsection \<open>The search engine, as the handler sees it\<close>

datatype json = JNull | JBool bool | JNum int | JStr string | JArr "json list"
  | JObj "(string \<times> json) list"

text \<open>A hit is an object of the index; a field that is missing reads as \<^verbatim>\<open>undefined\<close>.\<close>

record hit =
  h_id :: "string option"
  h_timestamp :: "string option"
  h_project :: "string option"
  h_level :: "string option"
  h_message :: "string option"
  h_traceId :: "string option"
  h_spanId :: "string option"
  h_parentSpanId :: "string option"
  h_source :: "string option"
  h_meta :: "json option"
  h_environment :: "string option"

type_synonym facet_counts = "(string \<times> int) list"

record search_response =
  estimatedTotalHits :: "int option"
  facetDistribution :: "(string \<times> facet_counts) list option"
  hits :: "hit list"

text \<open>The second argument of \<^verbatim>\<open>logs.search\<close>; a key that is not given is \<open>None\<close>.\<close>

record search_params =
  p_filter :: "string option"
  p_sort :: "string list option"
  p_limit :: "int option"
  p_facets :: "string list option"
  p_attributesToRetrieve :: "string list option"

text \<open>A thrown error, with its \<^verbatim>\<open>message\<close>.\<close>

datatype exn = Thrown (err_message: string)

text \<open>
  \<^verbatim>\<open>logs.search(query, params)\<close> is a call to an external service: it resolves to a
  response or rejects with an error. The handlers take it as a parameter.
\<close>

type_synonym engine = "string option \<Rightarrow> search_params \<Rightarrow> exn + search_response"

text \<open>\<^verbatim>\<open>results.facetDistribution?.project\<close> and its siblings.\<close>

definition facet_of :: "(string \<times> facet_counts) list option \<Rightarrow> string \<Rightarrow> facet_counts option" where
  "facet_of fd k = (case fd of None \<Rightarrow> None | Some d \<Rightarrow> map_of d k)"

text \<open>\<^verbatim>\<open>[...new Set(xs)]\<close>: the elements in insertion order, each once.\<close>

definition set_add :: "'a list \<Rightarrow> 'a \<Rightarrow> 'a list" where
  "set_add seen x = (if x \<in> set seen then seen else seen @ [x])"

definition new_Set :: "'a list \<Rightarrow> 'a list" where
  "new_Set xs = foldl set_add [] xs"

subsection \<open>Requests and results of \<^verbatim>\<open>tools/call\<close>\<close>

record tool_args =
  a_query :: "string option"
  a_project :: "string option"
  a_level :: "string option"
  a_traceId :: "string option"
  a_environment :: "string option"
  a_since :: "string option"
  a_message :: "string option"
  a_limit :: "int option"

record call_request =
  req_name :: string
  req_arguments :: "tool_args option"

record timeline_entry =
  tl_timestamp :: "string option"
  tl_project :: "string option"
  tl_level :: "string option"
  tl_message :: "string option"
  tl_spanId :: "string option"
  tl_parentSpanId :: "string option"
  tl_source :: "string option"

record error_entry =
  er_timestamp :: "string option"
  er_project :: "string option"
  er_message :: "string option"
  er_source :: "string option"
  er_traceId :: "string option"
  er_meta :: "json option"

record search_out =
  totalHits :: "int option"
  facets :: "(string \<times> facet_counts) list option"
  out_hits :: "hit list"

record trace_out =
  out_traceId :: "string option"
  eventCount :: nat
  projects :: "string option list"
  timeline :: "timeline_entry list"

record tail_out =
  out_count :: nat
  logs :: "hit list"

record projects_out =
  totalLogs :: "int option"
  byProject :: "facet_counts option"
  byLevel :: "facet_counts option"
  byEnvironment :: "facet_counts option"

record errors_out =
  totalErrors :: "int option"
  errorsByProject :: "facet_counts option"
  recentErrors :: "error_entry list"

record similar_out =
  out_query :: "string option"
  matches :: "hit list"

text \<open>
  The \<^verbatim>\<open>text\<close> of a result is either a plain message or \<^verbatim>\<open>JSON.stringify\<close> of one
  of the objects above; the model keeps the object.
\<close>

datatype content = Text string | SearchJson search_out | TraceJson trace_out
  | TailJson tail_out | ProjectsJson projects_out | ErrorsJson errors_out
  | SimilarJson similar_out

record tool_result =
  result_content :: content
  isError :: bool

text \<open>
  Reading a property of \<^verbatim>\<open>args\<close>: \<^verbatim>\<open>arguments\<close> is optional in a request, and a
  property read on \<^verbatim>\<open>undefined\<close> throws a TypeError (the message is Node's).
\<close>

definition read_args :: "tool_args option \<Rightarrow> string \<Rightarrow> exn + tool_args" where
  "read_args args prop =
     (case args of
        None \<Rightarrow> Inl (Thrown (''Cannot read properties of undefined (reading ''
                        @ [CHR 0x27] @ prop @ [CHR 0x27] @ '')''))
      | Some a \<Rightarrow> Inr a)"

definition ok_result :: "content \<Rightarrow> tool_result" where
  "ok_result c = \<lparr>result_content = c, isError = False\<rparr>"

definition error_result :: "string \<Rightarrow> tool_result" where
  "error_result t = \<lparr>result_content = Text t, isError = True\<rparr>"

subsection \<open>search\_logs\<close>

definition search_logs_query :: "tool_args \<Rightarrow> string option" where
  "search_logs_query a = Some (or_str (a_query a) [])"

definition search_logs_params :: "int \<Rightarrow> tool_args \<Rightarrow> search_params" where
  "search_logs_params now a =
     (let filter = buildFilter now
            \<lparr>opt_project = a_project a, opt_level = a_level a, opt_traceId = a_traceId a,
             opt_environment = a_environment a, opt_since = a_since a, opt_extraFilter = None\<rparr>
      in \<lparr>p_filter = filter,
          p_sort = Some [''timestamp:desc''],
          p_limit = Some (min (or_num (a_limit a) 20) 100),
          p_facets = Some [''project'', ''level''],
          p_attributesToRetrieve = Some [''id'', ''timestamp'', ''project'', ''level'', ''message'',
            ''traceId'', ''spanId'', ''source'', ''meta'', ''environment'']\<rparr>)"

definition search_logs_out :: "search_response \<Rightarrow> content" where
  "search_logs_out results =
     SearchJson \<lparr>totalHits = estimatedTotalHits results,
                 facets = facetDistribution results,
                 out_hits = hits results\<rparr>"

definition search_logs :: "engine \<Rightarrow> int \<Rightarrow> tool_args option \<Rightarrow> exn + tool_result" where
  "search_logs search now args =
     (case read_args args ''project'' of
        Inl e \<Rightarrow> Inl e
      | Inr a \<Rightarrow>
          (case search (search_logs_query a) (search_logs_params now a) of
             Inl e \<Rightarrow> Inl e
           | Inr results \<Rightarrow> Inr (ok_result (search_logs_out results))))"

subsection \<open>get\_trace\<close>

definition get_trace_params :: "tool_args \<Rightarrow> search_params" where
  "get_trace_params a =
     \<lparr>p_filter = Some (eq_clause ''traceId'' (a_traceId a)),
      p_sort = Some [''timestamp:asc''],
      p_limit = Some 500,
      p_facets = None,
      p_attributesToRetrieve = None\<rparr>"

definition timeline_of :: "hit \<Rightarrow> timeline_entry" where
  "timeline_of h =
     \<lparr>tl_timestamp = h_timestamp h, tl_project = h_project h, tl_level = h_level h,
      tl_message = h_message h, tl_spanId = h_spanId h, tl_parentSpanId = h_parentSpanId h,
      tl_source = h_source h\<rparr>"

definition get_trace_out :: "tool_args \<Rightarrow> search_response \<Rightarrow> content" where
  "get_trace_out a results =
     (let hs = hits results;
          projects = new_Set (map h_project hs)
      in TraceJson \<lparr>out_traceId = a_traceId a,
                    eventCount = length hs,
                    projects = projects,
                    timeline = map timeline_of hs\<rparr>)"

definition get_trace :: "engine \<Rightarrow> tool_args option \<Rightarrow> exn + tool_result" where
  "get_trace search args =
     (case read_args args ''traceId'' of
        Inl e \<Rightarrow> Inl e
      | Inr a \<Rightarrow>
          (case search (Some []) (get_trace_params a) of
             Inl e \<Rightarrow> Inl e
           | Inr results \<Rightarrow> Inr (ok_result (get_trace_out a results))))"

subsection \<open>tail\_logs\<close>

definition tail_logs_params :: "int \<Rightarrow> tool_args \<Rightarrow> search_params" where
  "tail_logs_params now a =
     (let filter = buildFilter now
            \<lparr>opt_project = a_project a, opt_level = a_level a, opt_traceId = None,
             opt_environment = None, opt_since = None, opt_extraFilter = None\<rparr>
      in \<lparr>p_filter = filter,
          p_sort = Some [''timestamp:desc''],
          p_limit = Some (min (or_num (a_limit a) 30) 100),
          p_facets = None,
          p_attributesToRetrieve = None\<rparr>)"

definition tail_logs :: "engine \<Rightarrow> int \<Rightarrow> tool_args option \<Rightarrow> exn + tool_result" where
  "tail_logs search now args =
     (case read_args args ''project'' of
        Inl e \<Rightarrow> Inl e
      | Inr a \<Rightarrow>
          (case search (Some []) (tail_logs_params now a) of
             Inl e \<Rightarrow> Inl e
           | Inr results \<Rightarrow>
               Inr (ok_result (TailJson \<lparr>out_count = length (hits results),
                                          logs = rev (hits results)\<rparr>))))"

subsection \<open>list\_projects\<close>

definition list_projects_params :: search_params where
  "list_projects_params =
     \<lparr>p_filter = None,
      p_sort = None,
      p_limit = Some 0,
      p_facets = Some [''project'', ''level'', ''environment''],
      p_attributesToRetrieve = None\<rparr>"

definition list_projects_out :: "search_response \<Rightarrow> content" where
  "list_projects_out results =
     ProjectsJson \<lparr>totalLogs = estimatedTotalHits results,
                   byProject = facet_of (facetDistribution results) ''project'',
                   byLevel = facet_of (facetDistribution results) ''level'',
                   byEnvironment = facet_of (facetDistribution results) ''environment''\<rparr>"

definition list_projects :: "engine \<Rightarrow> exn + tool_result" where
  "list_projects search =
     (case search (Some []) list_projects_params of
        Inl e \<Rightarrow> Inl e
      | Inr results \<Rightarrow> Inr (ok_result (list_projects_out results)))"

subsection \<open>error\_summary\<close>

definition error_levels :: string where
  "error_levels = ''(level = '' @ [dquote] @ ''error'' @ [dquote] @ '' OR level = ''
     @ [dquote] @ ''fatal'' @ [dquote] @ '')''"

definition error_summary_query :: "tool_args \<Rightarrow> string option" where
  "error_summary_query a = Some (or_str (a_query a) [])"

definition error_summary_params :: "int \<Rightarrow> tool_args \<Rightarrow> search_params" where
  "error_summary_params now a =
     (let filter = buildFilter now
            \<lparr>opt_project = a_project a, opt_level = None, opt_traceId = None,
             opt_environment = None, opt_since = Some (or_str (a_since a) ''1h''),
             opt_extraFilter = Some error_levels\<rparr>
      in \<lparr>p_filter = filter,
          p_sort = Some [''timestamp:desc''],
          p_limit = Some 30,
          p_facets = Some [''project''],
          p_attributesToRetrieve = None\<rparr>)"

definition error_of :: "hit \<Rightarrow> error_entry" where
  "error_of h =
     \<lparr>er_timestamp = h_timestamp h, er_project = h_project h, er_message = h_message h,
      er_source = h_source h, er_traceId = h_traceId h, er_meta = h_meta h\<rparr>"

definition error_summary_out :: "search_response \<Rightarrow> content" where
  "error_summary_out results =
     ErrorsJson \<lparr>totalErrors = estimatedTotalHits results,
                 errorsByProject = facet_of (facetDistribution results) ''project'',
                 recentErrors = map error_of (hits results)\<rparr>"

definition error_summary :: "engine \<Rightarrow> int \<Rightarrow> tool_args option \<Rightarrow> exn + tool_result" where
  "error_summary search now args =
     (case read_args args ''project'' of
        Inl e \<Rightarrow> Inl e
      | Inr a \<Rightarrow>
          (case search (error_summary_query a) (error_summary_params now a) of
             Inl e \<Rightarrow> Inl e
           | Inr results \<Rightarrow> Inr (ok_result (error_summary_out results))))"

subsection \<open>find\_similar\<close>

definition find_similar_params :: "int \<Rightarrow> tool_args \<Rightarrow> search_params" where
  "find_similar_params now a =
     (let filter = buildFilter now
            \<lparr>opt_project = a_project a, opt_level = None, opt_traceId = None,
             opt_environment = None, opt_since = None, opt_extraFilter = None\<rparr>
      in \<lparr>p_filter = filter,
          p_sort = None,
          p_limit = Some (or_num (a_limit a) 10),
          p_facets = None,
          p_attributesToRetrieve = None\<rparr>)"

definition find_similar :: "engine \<Rightarrow> int \<Rightarrow> tool_args option \<Rightarrow> exn + tool_result" where
  "find_similar search now args =
     (case read_args args ''project'' of
        Inl e \<Rightarrow> Inl e
      | Inr a \<Rightarrow>
          (case search (a_message a) (find_similar_params now a) of
             Inl e \<Rightarrow> Inl e
           | Inr results \<Rightarrow>
               Inr (ok_result (SimilarJson \<lparr>out_query = a_message a,
                                             matches = hits results\<rparr>))))"

subsection \<open>The \<^verbatim>\<open>tools/call\<close> handler\<close>

text \<open>The \<^verbatim>\<open>switch\<close> inside the \<^verbatim>\<open>try\<close>: \<open>Inl\<close> is an exception leaving the block.\<close>

definition tool_switch :: "engine \<Rightarrow> int \<Rightarrow> string \<Rightarrow> tool_args option \<Rightarrow> exn + tool_result" where
  "tool_switch search now name args =
     (if name = ''search_logs'' then search_logs search now args
      else if name = ''get_trace'' then get_trace search args
      else if name = ''tail_logs'' then tail_logs search now args
      else if name = ''list_projects'' then list_projects search
      else if name = ''error_summary'' then error_summary search now args
      else if name = ''find_similar'' then find_similar search now args
      else Inr (error_result (''Unknown tool: '' @ name)))"

text \<open>
  The handler: the \<^verbatim>\<open>catch\<close> turns an exception into a result. The type still allows
  \<open>Inl\<close>, an exception that leaves the handler.
\<close>

definition tools_call :: "engine \<Rightarrow> int \<Rightarrow> call_request \<Rightarrow> exn + tool_result" where
  "tools_call search now request =
     (let name = req_name request; args = req_arguments request
      in case tool_switch search now name args of
           Inr r \<Rightarrow> Inr r
         | Inl err \<Rightarrow> Inr (error_result (''Error: '' @ err_message err)))"

subsection \<open>Reading the filter\<close>

text \<open>
  The engine receives the filter as text. A double-quoted string in it ends at the first
  double quote that no backslash precedes: \<open>read_quoted\<close> takes the text after the opening
  quote and returns the string's body and the text after the closing quote.
\<close>

fun read_quoted :: "string \<Rightarrow> (string \<times> string) option" where
  "read_quoted [] = None"
| "read_quoted (c # cs) =
     (if c = dquote then Some ([], cs)
      else if c = backslash then
        (case cs of
           [] \<Rightarrow> None
         | d # ds \<Rightarrow> map_option (\<lambda>(body, rest). (c # d # body, rest)) (read_quoted ds))
      else map_option (\<lambda>(body, rest). (c # body, rest)) (read_quoted cs))"

text \<open>
  The clauses the specification lists for a filter, one per component that is given and not
  empty, in the order project, level, traceId, environment, since, extra filter.
\<close>

definition spec_eq_clause :: "string \<Rightarrow> string option \<Rightarrow> string list" where
  "spec_eq_clause field v =
     (case v of
        None \<Rightarrow> []
      | Some s \<Rightarrow> if s = [] then [] else [field @ '' = '' @ [dquote] @ s @ [dquote]])"

definition spec_since_clause :: "int \<Rightarrow> string option \<Rightarrow> string list" where
  "spec_since_clause now v =
     (case v of
        None \<Rightarrow> []
      | Some s \<Rightarrow> if s = [] then [] else [''timestampMs > '' @ show_int (now - parseDuration s)])"

definition spec_extra_clause :: "string option \<Rightarrow> string list" where
  "spec_extra_clause v = (case v of None \<Rightarrow> [] | Some s \<Rightarrow> if s = [] then [] else [s])"

definition spec_filter_clauses :: "int \<Rightarrow> filter_opts \<Rightarrow> string list" where
  "spec_filter_clauses now opts =
     spec_eq_clause ''project'' (opt_project opts)
     @ spec_eq_clause ''level'' (opt_level opts)
     @ spec_eq_clause ''traceId'' (opt_traceId opts)
     @ spec_eq_clause ''environment'' (opt_environment opts)
     @ spec_since_clause now (opt_since opts)
     @ spec_extra_clause (opt_extraFilter opts)"

text \<open>
  \<open>extends_opts opts opts'\<close>: \<open>opts'\<close> keeps every component that \<open>opts\<close> gives and may give
  more.
\<close>

definition extends_opts :: "filter_opts \<Rightarrow> filter_opts \<Rightarrow> bool" where
  "extends_opts opts opts' =
     ((truthy (opt_project opts) \<longrightarrow> opt_project opts' = opt_project opts)
      \<and> (truthy (opt_level opts) \<longrightarrow> opt_level opts' = opt_level opts)
      \<and> (truthy (opt_traceId opts) \<longrightarrow> opt_traceId opts' = opt_traceId opts)
      \<and> (truthy (opt_environment opts) \<longrightarrow> opt_environment opts' = opt_environment opts)
      \<and> (truthy (opt_since opts) \<longrightarrow> opt_since opts' = opt_since opts)
      \<and> (truthy (opt_extraFilter opts) \<longrightarrow> opt_extraFilter opts' = opt_extraFilter opts))"

text \<open>
  The records that satisfy every clause of a list, for any reading \<open>holds\<close> of one clause on
  one record.
\<close>

definition satisfying :: "(string \<Rightarrow> 'r \<Rightarrow> bool) \<Rightarrow> string list \<Rightarrow> 'r set" where
  "satisfying holds parts = {r. list_all (\<lambda>c. holds c r) parts}"

section \<open>The Node SDK: \<^verbatim>\<open>src/unnamed/part_000\<close>\<close>

record logstream_options =
  lo_serverUrl :: string
  lo_project :: string
  lo_environment :: "string option"
  lo_batchMs :: "int option"
  lo_batchSize :: "int option"

record log_meta =
  lm_traceId :: "string option"
  lm_spanId :: "string option"
  lm_parentSpanId :: "string option"
  lm_meta :: "json option"
  lm_source :: "string option"

text \<open>An entry of the queue; the five keys after \<open>e_message\<close> are set only conditionally.\<close>

record entry =
  e_timestamp :: string
  e_project :: string
  e_environment :: string
  e_level :: string
  e_message :: string
  e_traceId :: "string option"
  e_spanId :: "string option"
  e_parentSpanId :: "string option"
  e_meta :: "json option"
  e_source :: "string option"

text \<open>
  The variables that \<^verbatim>\<open>createLogger\<close> closes over: \<open>sent\<close> lists the batches handed to
  \<^verbatim>\<open>ws.send\<close>, and \<open>next_uuid\<close> counts the calls of \<^verbatim>\<open>randomUUID\<close>, whose results are
  given by a parameter \<open>uuid :: nat \<Rightarrow> string\<close>.
\<close>

record logger =
  connected :: bool
  queue :: "entry list"
  sent :: "entry list list"
  next_uuid :: nat

definition createLogger :: logger where
  "createLogger = \<lparr>connected = False, queue = [], sent = [], next_uuid = 0\<rparr>"

text \<open>\<^verbatim>\<open>opts.batchSize ?? 50\<close>.\<close>

definition batchSize :: "logstream_options \<Rightarrow> int" where
  "batchSize opts = (case lo_batchSize opts of None \<Rightarrow> 50 | Some n \<Rightarrow> n)"

definition flush :: "logger \<Rightarrow> logger" where
  "flush st =
     (if \<not> connected st \<or> length (queue st) = 0 then st
      else st\<lparr>sent := sent st @ [queue st], queue := []\<rparr>)"

text \<open>The handlers of the socket's \<^verbatim>\<open>open\<close> and \<^verbatim>\<open>close\<close> events.\<close>

definition ws_open :: "logger \<Rightarrow> logger" where
  "ws_open st = flush (st\<lparr>connected := True\<rparr>)"

definition ws_close :: "logger \<Rightarrow> logger" where
  "ws_close st = st\<lparr>connected := False\<rparr>"

text \<open>\<^verbatim>\<open>if (extra?.f) entry.f = extra.f\<close> for a string field.\<close>

definition extra_field :: "log_meta option \<Rightarrow> (log_meta \<Rightarrow> string option) \<Rightarrow> string option" where
  "extra_field extra f =
     (case extra of None \<Rightarrow> None | Some x \<Rightarrow> if truthy (f x) then f x else None)"

definition log_entry :: "logstream_options \<Rightarrow> string \<Rightarrow> string \<Rightarrow> string \<Rightarrow> log_meta option \<Rightarrow> entry" where
  "log_entry opts ts level message extra =
     \<lparr>e_timestamp = ts,
      e_project = lo_project opts,
      e_environment = or_str (lo_environment opts) ''dev'',
      e_level = level,
      e_message = message,
      e_traceId = extra_field extra lm_traceId,
      e_spanId = extra_field extra lm_spanId,
      e_parentSpanId = extra_field extra lm_parentSpanId,
      e_meta = (case extra of None \<Rightarrow> None | Some x \<Rightarrow> lm_meta x),
      e_source = extra_field extra lm_source\<rparr>"

text \<open>\<^verbatim>\<open>log\<close>; \<open>ts\<close> is \<^verbatim>\<open>new Date().toISOString()\<close>.\<close>

definition log :: "logstream_options \<Rightarrow> string \<Rightarrow> string \<Rightarrow> string \<Rightarrow> log_meta option \<Rightarrow> logger \<Rightarrow> logger" where
  "log opts ts level message extra st =
     (let st = st\<lparr>queue := queue st @ [log_entry opts ts level message extra]\<rparr>
      in if int (length (queue st)) \<ge> batchSize opts then flush st else st)"

definition randomUUID :: "(nat \<Rightarrow> string) \<Rightarrow> logger \<Rightarrow> string \<times> logger" where
  "randomUUID uuid st = (uuid (next_uuid st), st\<lparr>next_uuid := Suc (next_uuid st)\<rparr>)"

text \<open>
  A \<^verbatim>\<open>TraceContext\<close>: its two fields and the variables its methods close over.
  \<open>tc_continued\<close> tells the object of \<^verbatim>\<open>continueTrace\<close> from the one of \<^verbatim>\<open>startTrace\<close>, and
  \<open>tc_parentSpanId\<close> is the former's \<^verbatim>\<open>parentSpanId\<close>.
\<close>

record trace_context =
  tc_traceId :: string
  tc_spanId :: string
  tc_name :: string
  tc_continued :: bool
  tc_parentSpanId :: "string option"

record span_context =
  sc_traceId :: string
  sc_spanId :: string
  sc_parentSpanId :: string
  sc_name :: string
  sc_continued :: bool

definition operation_meta :: "string \<Rightarrow> json" where
  "operation_meta name = JObj [(''operation'', JStr name)]"

definition startTrace ::
  "logstream_options \<Rightarrow> (nat \<Rightarrow> string) \<Rightarrow> string \<Rightarrow> string \<Rightarrow> logger \<Rightarrow> trace_context \<times> logger" where
  "startTrace opts uuid ts name st =
     (let (traceId, st) = randomUUID uuid st;
          (spanId, st) = randomUUID uuid st;
          st = log opts ts ''info'' (''trace:start '' @ name)
                 (Some \<lparr>lm_traceId = Some traceId, lm_spanId = Some spanId, lm_parentSpanId = None,
                        lm_meta = Some (operation_meta name), lm_source = None\<rparr>) st
      in (\<lparr>tc_traceId = traceId, tc_spanId = spanId, tc_name = name, tc_continued = False,
           tc_parentSpanId = None\<rparr>, st))"

definition continueTrace ::
  "logstream_options \<Rightarrow> (nat \<Rightarrow> string) \<Rightarrow> string \<Rightarrow> (string \<Rightarrow> string option) \<Rightarrow> string \<Rightarrow> logger
     \<Rightarrow> trace_context \<times> logger" where
  "continueTrace opts uuid ts headers name st =
     (let (traceId, st) =
            (if truthy (headers ''x-trace-id'') then (template_str (headers ''x-trace-id''), st)
             else randomUUID uuid st);
          parentSpanId = headers ''x-span-id'';
          (spanId, st) = randomUUID uuid st;
          st = log opts ts ''info'' (''span:start '' @ name)
                 (Some \<lparr>lm_traceId = Some traceId, lm_spanId = Some spanId,
                        lm_parentSpanId = parentSpanId,
                        lm_meta = Some (operation_meta name), lm_source = None\<rparr>) st
      in (\<lparr>tc_traceId = traceId, tc_spanId = spanId, tc_name = name, tc_continued = True,
           tc_parentSpanId = parentSpanId\<rparr>, st))"

text \<open>The method \<^verbatim>\<open>span\<close> of a trace context (the same code in both objects).\<close>

definition span ::
  "logstream_options \<Rightarrow> (nat \<Rightarrow> string) \<Rightarrow> string \<Rightarrow> trace_context \<Rightarrow> string \<Rightarrow> logger
     \<Rightarrow> span_context \<times> logger" where
  "span opts uuid ts tc childName st =
     (let (childSpanId, st) = randomUUID uuid st;
          st = log opts ts ''info'' (''span:start '' @ childName)
                 (Some \<lparr>lm_traceId = Some (tc_traceId tc), lm_spanId = Some childSpanId,
                        lm_parentSpanId = Some (tc_spanId tc),
                        lm_meta = Some (operation_meta childName), lm_source = None\<rparr>) st
      in (\<lparr>sc_traceId = tc_traceId tc, sc_spanId = childSpanId, sc_parentSpanId = tc_spanId tc,
           sc_name = childName, sc_continued = tc_continued tc\<rparr>, st))"

text \<open>The method \<^verbatim>\<open>end\<close> of a span; under \<^verbatim>\<open>continueTrace\<close> it passes no parent.\<close>

definition span_end :: "logstream_options \<Rightarrow> string \<Rightarrow> span_context \<Rightarrow> logger \<Rightarrow> logger" where
  "span_end opts ts sc st =
     log opts ts ''info'' (''span:end '' @ sc_name sc)
       (Some \<lparr>lm_traceId = Some (sc_traceId sc), lm_spanId = Some (sc_spanId sc),
              lm_parentSpanId = (if sc_continued sc then None else Some (sc_parentSpanId sc)),
              lm_meta = None, lm_source = None\<rparr>) st"

definition span_headers :: "span_context \<Rightarrow> (string \<times> string) list" where
  "span_headers sc =
     [(''x-trace-id'', sc_traceId sc), (''x-span-id'', sc_spanId sc),
      (''x-parent-span-id'', sc_parentSpanId sc)]"

text \<open>The method \<^verbatim>\<open>end\<close> of a trace context.\<close>

definition trace_end :: "logstream_options \<Rightarrow> string \<Rightarrow> trace_context \<Rightarrow> logger \<Rightarrow> logger" where
  "trace_end opts ts tc st =
     log opts ts ''info''
       ((if tc_continued tc then ''span:end '' else ''trace:end '') @ tc_name tc)
       (Some \<lparr>lm_traceId = Some (tc_traceId tc), lm_spanId = Some (tc_spanId tc),
              lm_parentSpanId = None, lm_meta = None, lm_source = None\<rparr>) st"

text \<open>The method \<^verbatim>\<open>headers\<close> of a trace context.\<close>

definition trace_headers :: "trace_context \<Rightarrow> (string \<times> string) list" where
  "trace_headers tc =
     (if tc_continued tc then
        [(''x-trace-id'', tc_traceId tc), (''x-span-id'', tc_spanId tc),
         (''x-parent-span-id'', or_str (tc_parentSpanId tc) [])]
      else [(''x-trace-id'', tc_traceId tc), (''x-span-id'', tc_spanId tc)])"

text \<open>\<^verbatim>\<open>close\<close>: the timers are cleared and the queue is flushed.\<close>

definition close :: "logger \<Rightarrow> logger" where
  "close st = flush st"

text \<open>The calls a program can make on a logger, and the socket's events.\<close>

datatype node_op =
    Log string string string "log_meta option"
  | Flush
  | WsOpen
  | WsClose
  | StartTrace string string
  | ContinueTrace string "(string \<times> string) list" string
  | Span string trace_context string
  | SpanEnd string span_context
  | TraceEnd string trace_context
  | Close

fun node_step :: "logstream_options \<Rightarrow> (nat \<Rightarrow> string) \<Rightarrow> logger \<Rightarrow> node_op \<Rightarrow> logger" where
  "node_step opts uuid st (Log ts level message extra) = log opts ts level message extra st"
| "node_step opts uuid st Flush = flush st"
| "node_step opts uuid st WsOpen = ws_open st"
| "node_step opts uuid st WsClose = ws_close st"
| "node_step opts uuid st (StartTrace ts name) = snd (startTrace opts uuid ts name st)"
| "node_step opts uuid st (ContinueTrace ts hs name) =
     snd (continueTrace opts uuid ts (map_of hs) name st)"
| "node_step opts uuid st (Span ts tc childName) = snd (span opts uuid ts tc childName st)"
| "node_step opts uuid st (SpanEnd ts sc) = span_end opts ts sc st"
| "node_step opts uuid st (TraceEnd ts tc) = trace_end opts ts tc st"
| "node_step opts uuid st Close = close st"

definition node_run :: "logstream_options \<Rightarrow> (nat \<Rightarrow> string) \<Rightarrow> node_op list \<Rightarrow> logger" where
  "node_run opts uuid ops = foldl (node_step opts uuid) createLogger ops"

text \<open>Every entry the logger has produced: the batches sent, then the queue.\<close>

definition emitted :: "logger \<Rightarrow> entry list" where
  "emitted st = concat (sent st) @ queue st"

section \<open>The browser SDK: \<^verbatim>\<open>src/sdk/browser/index.ts\<close>\<close>

record browser_options =
  bo_endpoint :: string
  bo_project :: string
  bo_environment :: "string option"
  bo_flushMs :: "int option"
  bo_captureErrors :: "bool option"
  bo_captureConsole :: "bool option"

text \<open>
  What the page provides: \<^verbatim>\<open>document\<close>, \<^verbatim>\<open>window\<close>, \<^verbatim>\<open>location.href\<close> and
  \<^verbatim>\<open>navigator.sendBeacon\<close>.
\<close>

record page =
  has_document :: bool
  has_window :: bool
  href :: "string option"
  has_sendBeacon :: bool

record browser_entry =
  be_timestamp :: string
  be_project :: string
  be_environment :: string
  be_level :: string
  be_message :: string
  be_meta :: "string \<Rightarrow> json option"

text \<open>\<open>beacons\<close> and \<open>posts\<close> list the batches given to \<^verbatim>\<open>sendBeacon\<close> and to \<^verbatim>\<open>fetch\<close>.\<close>

record browser_logger =
  b_queue :: "browser_entry list"
  beacons :: "browser_entry list list"
  posts :: "browser_entry list list"

definition createBrowserLogger :: browser_logger where
  "createBrowserLogger = \<lparr>b_queue = [], beacons = [], posts = []\<rparr>"

definition browser_flush :: "page \<Rightarrow> bool \<Rightarrow> browser_logger \<Rightarrow> browser_logger" where
  "browser_flush pg beacon st =
     (if length (b_queue st) = 0 then st
      else let batch = b_queue st; st = st\<lparr>b_queue := []\<rparr>
           in if beacon \<and> has_sendBeacon pg then st\<lparr>beacons := beacons st @ [batch]\<rparr>
              else st\<lparr>posts := posts st @ [batch]\<rparr>)"

text \<open>The object \<^verbatim>\<open>{...meta, url: location.href}\<close>.\<close>

definition meta_with_url :: "page \<Rightarrow> (string \<Rightarrow> json option) option \<Rightarrow> string \<Rightarrow> json option" where
  "meta_with_url pg meta =
     (case meta of None \<Rightarrow> Map.empty | Some m \<Rightarrow> m)(''url'' := map_option JStr (href pg))"

definition browser_log ::
  "browser_options \<Rightarrow> page \<Rightarrow> string \<Rightarrow> string \<Rightarrow> string \<Rightarrow> (string \<Rightarrow> json option) option
     \<Rightarrow> browser_logger \<Rightarrow> browser_logger" where
  "browser_log opts pg ts level message meta st =
     st\<lparr>b_queue := b_queue st @
        [\<lparr>be_timestamp = ts,
          be_project = bo_project opts,
          be_environment = or_str (bo_environment opts) ''dev'',
          be_level = level,
          be_message = message,
          be_meta = meta_with_url pg meta\<rparr>]\<rparr>"

text \<open>
  The listeners for \<^verbatim>\<open>error\<close> and \<^verbatim>\<open>unhandledrejection\<close>, registered when
  \<^verbatim>\<open>opts.captureErrors !== false\<close> and there is a \<^verbatim>\<open>window\<close>.
\<close>

definition captures_errors :: "browser_options \<Rightarrow> page \<Rightarrow> bool" where
  "captures_errors opts pg = (bo_captureErrors opts \<noteq> Some False \<and> has_window pg)"

definition on_error ::
  "browser_options \<Rightarrow> page \<Rightarrow> string \<Rightarrow> string \<Rightarrow> string \<Rightarrow> int \<Rightarrow> int \<Rightarrow> string option
     \<Rightarrow> browser_logger \<Rightarrow> browser_logger" where
  "on_error opts pg ts message filename lineno colno stack st =
     (if captures_errors opts pg then
        browser_log opts pg ts ''error'' message
          (Some ([''source'' \<mapsto> JStr (filename @ '':'' @ show_int lineno @ '':'' @ show_int colno),
                  ''type'' \<mapsto> JStr ''unhandled_error''](''stack'' := map_option JStr stack))) st
      else st)"

definition on_unhandledrejection ::
  "browser_options \<Rightarrow> page \<Rightarrow> string \<Rightarrow> string \<Rightarrow> string option \<Rightarrow> browser_logger \<Rightarrow> browser_logger" where
  "on_unhandledrejection opts pg ts reason stack st =
     (if captures_errors opts pg then
        browser_log opts pg ts ''error'' (''Unhandled promise rejection: '' @ reason)
          (Some ([''type'' \<mapsto> JStr ''unhandled_rejection''](''stack'' := map_option JStr stack))) st
      else st)"

text \<open>
  \<^verbatim>\<open>console.error\<close>, replaced when \<^verbatim>\<open>opts.captureConsole\<close> is set; \<open>args\<close> are the
  arguments as \<^verbatim>\<open>String\<close> renders them.
\<close>

definition console_error ::
  "browser_options \<Rightarrow> page \<Rightarrow> string \<Rightarrow> string list \<Rightarrow> browser_logger \<Rightarrow> browser_logger" where
  "console_error opts pg ts args st =
     (if bo_captureConsole opts = Some True then
        browser_log opts pg ts ''error'' (join '' '' args) (Some [''type'' \<mapsto> JStr ''console_error'']) st
      else st)"

text \<open>
  The listener for \<^verbatim>\<open>visibilitychange\<close> to hidden and for \<^verbatim>\<open>beforeunload\<close>, registered when
  there is a \<^verbatim>\<open>document\<close>.
\<close>

definition on_page_hide :: "page \<Rightarrow> browser_logger \<Rightarrow> browser_logger" where
  "on_page_hide pg st = (if has_document pg then browser_flush pg True st else st)"

text \<open>The calls a page can make on a browser logger, and the timer and page events.\<close>

datatype browser_op =
    BLog string string string "(string \<Rightarrow> json option) option"
  | BFlush
  | PageHidden
  | WindowError string string string int int "string option"
  | UnhandledRejection string string "string option"
  | ConsoleError string "string list"
  | BClose

fun browser_step :: "browser_options \<Rightarrow> page \<Rightarrow> browser_logger \<Rightarrow> browser_op \<Rightarrow> browser_logger" where
  "browser_step opts pg st (BLog ts level message meta) = browser_log opts pg ts level message meta st"
| "browser_step opts pg st BFlush = browser_flush pg False st"
| "browser_step opts pg st PageHidden = on_page_hide pg st"
| "browser_step opts pg st (WindowError ts message filename lineno colno stack) =
     on_error opts pg ts message filename lineno colno stack st"
| "browser_step opts pg st (UnhandledRejection ts reason stack) =
     on_unhandledrejection opts pg ts reason stack st"
| "browser_step opts pg st (ConsoleError ts args) = console_error opts pg ts args st"
| "browser_step opts pg st BClose = browser_flush pg True st"

definition browser_run :: "browser_options \<Rightarrow> page \<Rightarrow> browser_op list \<Rightarrow> browser_logger" where
  "browser_run opts pg ops = foldl (browser_step opts pg) createBrowserLogger ops"

definition browser_emitted :: "browser_logger \<Rightarrow> browser_entry list" where
  "browser_emitted st = concat (beacons st) @ concat (posts st) @ b_queue st"

section \<open>Example values\<close>

text \<open>An arguments object and an options object with no key, and sample data.\<close>

definition empty_args :: tool_args where
  "empty_args = \<lparr>a_query = None, a_project = None, a_level = None, a_traceId = None,
     a_environment = None, a_since = None, a_message = None, a_limit = None\<rparr>"

definition no_opts :: filter_opts where
  "no_opts = \<lparr>opt_project = None, opt_level = None, opt_traceId = None,
     opt_environment = None, opt_since = None, opt_extraFilter = None\<rparr>"

definition empty_response :: search_response where
  "empty_response = \<lparr>estimatedTotalHits = Some 0, facetDistribution = None, hits = []\<rparr>"

definition example_hit :: "string \<Rightarrow> string \<Rightarrow> string \<Rightarrow> string option \<Rightarrow> hit" where
  "example_hit p m sp par =
     \<lparr>h_id = None, h_timestamp = None, h_project = Some p, h_level = Some ''info'',
      h_message = Some m, h_traceId = Some ''T'', h_spanId = Some sp, h_parentSpanId = par,
      h_source = None, h_meta = None, h_environment = Some ''dev''\<rparr>"

definition example_uuid :: "nat \<Rightarrow> string" where
  "example_uuid n = ''id-'' @ show_nat n"

definition example_options :: logstream_options where
  "example_options = \<lparr>lo_serverUrl = ''ws://localhost:4800/ws'', lo_project = ''api'',
     lo_environment = None, lo_batchMs = None, lo_batchSize = None\<rparr>"

section \<open>Properties\<close>

subsection \<open>Helper lemmas\<close>


lemma new_Set_snoc: "new_Set (xs @ [x]) = set_add (new_Set xs) x"
  by (simp add: new_Set_def)

lemma set_new_Set: "set (new_Set xs) = set xs"
  by (induction xs rule: rev_induct) (auto simp: new_Set_snoc set_add_def new_Set_def)

lemma distinct_new_Set: "distinct (new_Set xs)"
  by (induction xs rule: rev_induct) (auto simp: new_Set_snoc set_add_def new_Set_def)

lemma new_Set_first: "new_Set xs = rev (remdups (rev xs))"
  by (induction xs rule: rev_induct) (auto simp: new_Set_snoc set_add_def set_new_Set new_Set_def)



lemma push_if_append: "push_if c p parts = parts @ clause_if c p"
  by (simp add: push_if_def clause_if_def)

lemma buildFilter_parts_append:
  "buildFilter_parts now opts =
     clause_if (truthy (opt_project opts)) (eq_clause ''project'' (opt_project opts))
     @ clause_if (truthy (opt_level opts)) (eq_clause ''level'' (opt_level opts))
     @ clause_if (truthy (opt_traceId opts)) (eq_clause ''traceId'' (opt_traceId opts))
     @ clause_if (truthy (opt_environment opts)) (eq_clause ''environment'' (opt_environment opts))
     @ clause_if (truthy (opt_since opts)) (since_clause now (opt_since opts))
     @ clause_if (truthy (opt_extraFilter opts)) (template_str (opt_extraFilter opts))"
  by (simp add: buildFilter_parts_def push_if_append)



lemma read_quoted_plain:
  "dquote \<notin> set v \<Longrightarrow> backslash \<notin> set v \<Longrightarrow> read_quoted (v @ dquote # rest) = Some (v, rest)"
  by (induction v) auto

lemma clause_if_mono:
  "(c \<longrightarrow> c' \<and> p' = p) \<Longrightarrow> set (clause_if c p) \<subseteq> set (clause_if c' p')"
  by (auto simp: clause_if_def)

lemma parts_mono:
  assumes "extends_opts opts opts'"
  shows "set (buildFilter_parts now opts) \<subseteq> set (buildFilter_parts now opts')"
proof -
  have 1: "set (clause_if (truthy (opt_project opts)) (eq_clause ''project'' (opt_project opts)))
      \<subseteq> set (clause_if (truthy (opt_project opts')) (eq_clause ''project'' (opt_project opts')))"
    using assms by (intro clause_if_mono) (auto simp: extends_opts_def)
  have 2: "set (clause_if (truthy (opt_level opts)) (eq_clause ''level'' (opt_level opts)))
      \<subseteq> set (clause_if (truthy (opt_level opts')) (eq_clause ''level'' (opt_level opts')))"
    using assms by (intro clause_if_mono) (auto simp: extends_opts_def)
  have 3: "set (clause_if (truthy (opt_traceId opts)) (eq_clause ''traceId'' (opt_traceId opts)))
      \<subseteq> set (clause_if (truthy (opt_traceId opts')) (eq_clause ''traceId'' (opt_traceId opts')))"
    using assms by (intro clause_if_mono) (auto simp: extends_opts_def)
  have 4: "set (clause_if (truthy (opt_environment opts)) (eq_clause ''environment'' (opt_environment opts)))
      \<subseteq> set (clause_if (truthy (opt_environment opts')) (eq_clause ''environment'' (opt_environment opts')))"
    using assms by (intro clause_if_mono) (auto simp: extends_opts_def)
  have 5: "set (clause_if (truthy (opt_since opts)) (since_clause now (opt_since opts)))
      \<subseteq> set (clause_if (truthy (opt_since opts')) (since_clause now (opt_since opts')))"
    using assms by (intro clause_if_mono) (auto simp: extends_opts_def)
  have 6: "set (clause_if (truthy (opt_extraFilter opts)) (template_str (opt_extraFilter opts)))
      \<subseteq> set (clause_if (truthy (opt_extraFilter opts')) (template_str (opt_extraFilter opts')))"
    using assms by (intro clause_if_mono) (auto simp: extends_opts_def)
  show ?thesis
    unfolding buildFilter_parts_append set_append
    using 1 2 3 4 5 6 by blast
qed

lemma satisfying_antimono:
  "set ps \<subseteq> set qs \<Longrightarrow> satisfying holds qs \<subseteq> satisfying holds ps"
  by (auto simp: satisfying_def list_all_iff)

lemma parseDuration_1h: "parseDuration ''1h'' = 3600000"
  by (simp add: parseDuration_def match_duration_def is_digit_def is_unit_letter_def
      parseInt_def digit_val_def units_def or_num_def)

lemma or_str_truthy: "truthy (Some (or_str v d)) = (truthy v \<or> d \<noteq> [])"
  by (auto simp: or_str_def truthy_def split: option.splits)

lemma truthy_None: "truthy None = False"
  by (simp add: truthy_def)

lemma truthy_Some: "truthy (Some s) = (s \<noteq> [])"
  by (simp add: truthy_def)

lemma clause_if_eq: "clause_if (truthy v) (eq_clause field v) = spec_eq_clause field v"
  by (simp add: clause_if_def truthy_def eq_clause_def spec_eq_clause_def template_str_def
      split: option.splits)

lemma clause_if_since: "clause_if (truthy v) (since_clause now v) = spec_since_clause now v"
  by (simp add: clause_if_def truthy_def since_clause_def spec_since_clause_def template_str_def
      split: option.splits)

lemma clause_if_extra: "clause_if (truthy v) (template_str v) = spec_extra_clause v"
  by (simp add: clause_if_def truthy_def spec_extra_clause_def template_str_def
      split: option.splits)

lemma buildFilter_parts_spec: "buildFilter_parts now opts = spec_filter_clauses now opts"
  by (simp only: buildFilter_parts_append spec_filter_clauses_def clause_if_eq clause_if_since
      clause_if_extra)

lemma parseInt_snoc: "parseInt (ds @ [c]) = 10 * parseInt ds + digit_val c"
  by (simp add: parseInt_def)

lemma digit_val_digit_char: "d < 10 \<Longrightarrow> digit_val (digit_char d) = int d"
proof -
  assume "d < 10"
  then have "d \<in> {0, 1, 2, 3, 4, 5, 6, 7, 8, 9}" by auto
  then show ?thesis
    by (auto simp: digit_val_def digit_char_def)
qed

lemma parseInt_show_nat: "parseInt (show_nat n) = int n"
proof (induction n rule: show_nat.induct)
  case (1 n)
  show ?case
  proof (cases "n < 10")
    case True
    then show ?thesis
      by (subst show_nat.simps) (simp add: parseInt_def digit_val_digit_char)
  next
    case False
    then have "parseInt (show_nat n)
        = 10 * parseInt (show_nat (n div 10)) + digit_val (digit_char (n mod 10))"
      by (subst show_nat.simps) (simp add: parseInt_snoc)
    also have "\<dots> = 10 * int (n div 10) + int (n mod 10)"
      using 1 False by (simp add: digit_val_digit_char)
    also have "\<dots> = int n"
      by (simp add: zdiv_int zmod_int)
    finally show ?thesis .
  qed
qed

lemma inj_example_uuid: "inj example_uuid"
proof (rule injI)
  fix n m :: nat
  assume "example_uuid n = example_uuid m"
  then have "show_nat n = show_nat m" by (simp add: example_uuid_def)
  then have "parseInt (show_nat n) = parseInt (show_nat m)" by simp
  then show "n = m" by (simp add: parseInt_show_nat)
qed

lemma example_uuid_nonempty: "\<forall>n. example_uuid n \<noteq> []"
  by (simp add: example_uuid_def)

lemma emitted_flush: "emitted (flush st) = emitted st"
  by (simp add: emitted_def flush_def)

lemma emitted_log:
  "emitted (log opts ts level message extra st) = emitted st @ [log_entry opts ts level message extra]"
  by (simp add: log_def Let_def emitted_flush) (simp add: emitted_def)

lemma environment_log_entry:
  "e_environment (log_entry opts ts level message extra) = or_str (lo_environment opts) ''dev''"
  by (simp add: log_entry_def)

lemma emitted_next_uuid: "emitted (st\<lparr>next_uuid := k\<rparr>) = emitted st"
  by (simp add: emitted_def)

lemma emitted_startTrace:
  "\<exists>e. emitted (snd (startTrace opts uuid ts name st)) = emitted st @ [e]
       \<and> e_environment e = or_str (lo_environment opts) ''dev''"
  by (simp add: startTrace_def randomUUID_def Let_def emitted_log environment_log_entry
      emitted_next_uuid)

lemma emitted_continueTrace:
  "\<exists>e. emitted (snd (continueTrace opts uuid ts headers name st)) = emitted st @ [e]
       \<and> e_environment e = or_str (lo_environment opts) ''dev''"
  by (simp add: continueTrace_def randomUUID_def Let_def emitted_log environment_log_entry
      emitted_next_uuid)

lemma emitted_span:
  "\<exists>e. emitted (snd (span opts uuid ts tc childName st)) = emitted st @ [e]
       \<and> e_environment e = or_str (lo_environment opts) ''dev''"
  by (simp add: span_def randomUUID_def Let_def emitted_log environment_log_entry
      emitted_next_uuid)

lemma node_step_emitted:
  "emitted (node_step opts uuid st op) = emitted st
   \<or> (\<exists>e. emitted (node_step opts uuid st op) = emitted st @ [e]
          \<and> e_environment e = or_str (lo_environment opts) ''dev'')"
proof (cases op)
  case (Log ts level message extra)
  then show ?thesis by (simp add: emitted_log environment_log_entry)
next
  case Flush
  then show ?thesis by (simp add: emitted_flush)
next
  case WsOpen
  then show ?thesis by (simp add: ws_open_def emitted_flush) (simp add: emitted_def)
next
  case WsClose
  then show ?thesis by (simp add: ws_close_def emitted_def)
next
  case (StartTrace ts name)
  then show ?thesis using emitted_startTrace [of opts uuid ts name st] by simp
next
  case (ContinueTrace ts hs name)
  then show ?thesis using emitted_continueTrace [of opts uuid ts "map_of hs" name st] by simp
next
  case (Span ts tc childName)
  then show ?thesis using emitted_span [of opts uuid ts tc childName st] by simp
next
  case (SpanEnd ts sc)
  then show ?thesis by (simp add: span_end_def emitted_log environment_log_entry)
next
  case (TraceEnd ts tc)
  then show ?thesis by (simp add: trace_end_def emitted_log environment_log_entry)
next
  case Close
  then show ?thesis by (simp add: close_def emitted_flush)
qed

lemma node_step_environment:
  assumes "list_all (\<lambda>e. e_environment e = or_str (lo_environment opts) ''dev'') (emitted st)"
  shows "list_all (\<lambda>e. e_environment e = or_str (lo_environment opts) ''dev'')
           (emitted (node_step opts uuid st op))"
  using node_step_emitted [of opts uuid st op] assms by auto

lemma node_foldl_environment:
  "list_all (\<lambda>e. e_environment e = or_str (lo_environment opts) ''dev'') (emitted st) \<Longrightarrow>
   list_all (\<lambda>e. e_environment e = or_str (lo_environment opts) ''dev'')
     (emitted (foldl (node_step opts uuid) st ops))"
proof (induction ops arbitrary: st)
  case Nil
  then show ?case by simp
next
  case (Cons op ops)
  from Cons.prems have "list_all (\<lambda>e. e_environment e = or_str (lo_environment opts) ''dev'')
      (emitted (node_step opts uuid st op))"
    by (rule node_step_environment)
  then show ?case
    using Cons.IH by simp
qed

lemma browser_emitted_flush: "set (browser_emitted (browser_flush pg beacon st)) = set (browser_emitted st)"
  by (auto simp: browser_emitted_def browser_flush_def Let_def)

lemma browser_emitted_log:
  "\<exists>e. browser_emitted (browser_log opts pg ts level message meta st) = browser_emitted st @ [e]
       \<and> be_environment e = or_str (bo_environment opts) ''dev''"
  by (simp add: browser_emitted_def browser_log_def)

lemma browser_step_emitted:
  "set (browser_emitted (browser_step opts pg st op)) = set (browser_emitted st)
   \<or> (\<exists>e. browser_emitted (browser_step opts pg st op) = browser_emitted st @ [e]
          \<and> be_environment e = or_str (bo_environment opts) ''dev'')"
proof (cases op)
  case (BLog ts level message meta)
  then show ?thesis using browser_emitted_log [of opts pg ts level message meta st] by simp
next
  case BFlush
  then show ?thesis by (simp add: browser_emitted_flush)
next
  case PageHidden
  then show ?thesis by (simp add: on_page_hide_def browser_emitted_flush)
next
  case (WindowError ts message filename lineno colno stack)
  then show ?thesis
    by (cases "captures_errors opts pg") (simp_all add: on_error_def browser_emitted_log)
next
  case (UnhandledRejection ts reason stack)
  then show ?thesis
    by (cases "captures_errors opts pg") (simp_all add: on_unhandledrejection_def browser_emitted_log)
next
  case (ConsoleError ts args)
  then show ?thesis
    by (cases "bo_captureConsole opts = Some True") (simp_all add: console_error_def browser_emitted_log)
next
  case BClose
  then show ?thesis by (simp add: browser_emitted_flush)
qed

lemma browser_step_environment:
  assumes "list_all (\<lambda>e. be_environment e = or_str (bo_environment opts) ''dev'') (browser_emitted st)"
  shows "list_all (\<lambda>e. be_environment e = or_str (bo_environment opts) ''dev'')
           (browser_emitted (browser_step opts pg st op))"
  using browser_step_emitted [of opts pg st op] assms by (auto simp: list_all_iff)

lemma browser_foldl_environment:
  "list_all (\<lambda>e. be_environment e = or_str (bo_environment opts) ''dev'') (browser_emitted st) \<Longrightarrow>
   list_all (\<lambda>e. be_environment e = or_str (bo_environment opts) ''dev'')
     (browser_emitted (foldl (browser_step opts pg) st ops))"
proof (induction ops arbitrary: st)
  case Nil
  then show ?case by simp
next
  case (Cons op ops)
  from Cons.prems have "list_all (\<lambda>e. be_environment e = or_str (bo_environment opts) ''dev'')
      (browser_emitted (browser_step opts pg st op))"
    by (rule browser_step_environment)
  then show ?case
    using Cons.IH by simp
qed

lemma or_str_cases:
  "or_str v d = (case v of None \<Rightarrow> d | Some s \<Rightarrow> if s = [] then d else s)"
  by (simp add: or_str_def split: option.splits)

lemma startTrace_ids:
  "startTrace opts uuid ts name s0 = (t, s1) \<Longrightarrow>
   tc_traceId t = uuid (next_uuid s0) \<and> tc_spanId t = uuid (Suc (next_uuid s0))
   \<and> tc_continued t = False \<and> next_uuid s1 = Suc (Suc (next_uuid s0))"
  by (auto simp: startTrace_def randomUUID_def Let_def log_def flush_def)

lemma next_uuid_log: "next_uuid (log opts ts level message extra st) = next_uuid st"
  by (simp add: log_def flush_def Let_def)

lemma continueTrace_ids:
  assumes "continueTrace opts uuid ts headers name s1 = (c, s2)"
    and "headers ''x-trace-id'' = Some tid" and "tid \<noteq> []"
  shows "tc_traceId c = tid \<and> tc_spanId c = uuid (next_uuid s1)
   \<and> tc_parentSpanId c = headers ''x-span-id'' \<and> tc_continued c = True
   \<and> next_uuid s2 = Suc (next_uuid s1)"
  using assms
  by (auto simp: continueTrace_def randomUUID_def Let_def truthy_def template_str_def next_uuid_log)

lemma span_ids:
  "span opts uuid ts p childName s3 = (sp, s4) \<Longrightarrow>
   sc_traceId sp = tc_traceId p \<and> sc_parentSpanId sp = tc_spanId p
   \<and> sc_spanId sp = uuid (next_uuid s3)"
  by (auto simp: span_def randomUUID_def Let_def)

subsection \<open>Quoting of filter values\<close>

text \<open>
  C1, as the code has it. Every string value that \<^verbatim>\<open>buildFilter\<close> or \<^verbatim>\<open>get_trace\<close> places
  in a filter (project, level, traceId, environment) stands there unchanged between two
  double quotes: there is no escaping. When the value contains neither a double quote nor a
  backslash, the quoted string read from the filter is the value, and it ends where the
  value ends.
\<close>

theorem filter_values_verbatim:
  "(v \<noteq> [] \<longrightarrow>
      (opt_project opts = Some v \<longrightarrow>
         ''project = '' @ [dquote] @ v @ [dquote] \<in> set (buildFilter_parts now opts))
    \<and> (opt_level opts = Some v \<longrightarrow>
         ''level = '' @ [dquote] @ v @ [dquote] \<in> set (buildFilter_parts now opts))
    \<and> (opt_traceId opts = Some v \<longrightarrow>
         ''traceId = '' @ [dquote] @ v @ [dquote] \<in> set (buildFilter_parts now opts))
    \<and> (opt_environment opts = Some v \<longrightarrow>
         ''environment = '' @ [dquote] @ v @ [dquote] \<in> set (buildFilter_parts now opts)))
   \<and> (a_traceId a = Some v \<longrightarrow>
         p_filter (get_trace_params a) = Some (''traceId = '' @ [dquote] @ v @ [dquote]))
   \<and> (dquote \<notin> set v \<and> backslash \<notin> set v \<longrightarrow> read_quoted (v @ [dquote] @ rest) = Some (v, rest))"
proof (intro conjI impI)
  assume v: "v \<noteq> []"
  show "''project = '' @ [dquote] @ v @ [dquote] \<in> set (buildFilter_parts now opts)"
    if "opt_project opts = Some v"
    using that v by (simp add: buildFilter_parts_spec spec_filter_clauses_def spec_eq_clause_def)
  show "''level = '' @ [dquote] @ v @ [dquote] \<in> set (buildFilter_parts now opts)"
    if "opt_level opts = Some v"
    using that v by (simp add: buildFilter_parts_spec spec_filter_clauses_def spec_eq_clause_def)
  show "''traceId = '' @ [dquote] @ v @ [dquote] \<in> set (buildFilter_parts now opts)"
    if "opt_traceId opts = Some v"
    using that v by (simp add: buildFilter_parts_spec spec_filter_clauses_def spec_eq_clause_def)
  show "''environment = '' @ [dquote] @ v @ [dquote] \<in> set (buildFilter_parts now opts)"
    if "opt_environment opts = Some v"
    using that v by (simp add: buildFilter_parts_spec spec_filter_clauses_def spec_eq_clause_def)
next
  show "p_filter (get_trace_params a) = Some (''traceId = '' @ [dquote] @ v @ [dquote])"
    if "a_traceId a = Some v"
    using that by (simp add: get_trace_params_def eq_clause_def template_str_def)
  show "read_quoted (v @ [dquote] @ rest) = Some (v, rest)"
    if "dquote \<notin> set v \<and> backslash \<notin> set v"
    using that read_quoted_plain [of v rest] by simp
qed

text \<open>
  The same for the value \<^verbatim>\<open>api\<close>.
\<close>

theorem filter_values_verbatim_witness:
  \<open>''project = "api"'' \<in> set (buildFilter_parts 0
       \<lparr>opt_project = Some ''api'', opt_level = Some ''api'', opt_traceId = Some ''api'',
        opt_environment = Some ''api'', opt_since = None, opt_extraFilter = None\<rparr>)
   \<and> ''level = "api"'' \<in> set (buildFilter_parts 0
       \<lparr>opt_project = Some ''api'', opt_level = Some ''api'', opt_traceId = Some ''api'',
        opt_environment = Some ''api'', opt_since = None, opt_extraFilter = None\<rparr>)
   \<and> ''traceId = "api"'' \<in> set (buildFilter_parts 0
       \<lparr>opt_project = Some ''api'', opt_level = Some ''api'', opt_traceId = Some ''api'',
        opt_environment = Some ''api'', opt_since = None, opt_extraFilter = None\<rparr>)
   \<and> ''environment = "api"'' \<in> set (buildFilter_parts 0
       \<lparr>opt_project = Some ''api'', opt_level = Some ''api'', opt_traceId = Some ''api'',
        opt_environment = Some ''api'', opt_since = None, opt_extraFilter = None\<rparr>)
   \<and> p_filter (get_trace_params (empty_args\<lparr>a_traceId := Some ''api''\<rparr>)) = Some ''traceId = "api"''
   \<and> read_quoted ''api" AND level = "error"'' = Some (''api'', '' AND level = "error"'')\<close>
proof -
  let ?o = "\<lparr>opt_project = Some ''api'', opt_level = Some ''api'', opt_traceId = Some ''api'',
        opt_environment = Some ''api'', opt_since = None, opt_extraFilter = None\<rparr>"
  note th = filter_values_verbatim [of "''api''" ?o 0
      "empty_args\<lparr>a_traceId := Some ''api''\<rparr>" \<open>'' AND level = "error"''\<close>]
  have v: "''api'' \<noteq> []" by simp
  note th1 = th [THEN conjunct1, THEN mp, OF v]
  have o1: "opt_project ?o = Some ''api''" by simp
  have o2: "opt_level ?o = Some ''api''" by simp
  have o3: "opt_traceId ?o = Some ''api''" by simp
  have o4: "opt_environment ?o = Some ''api''" by simp
  have 1: \<open>''project = "api"'' \<in> set (buildFilter_parts 0 ?o)\<close>
    using th1 [THEN conjunct1, THEN mp, OF o1] by simp
  have 2: \<open>''level = "api"'' \<in> set (buildFilter_parts 0 ?o)\<close>
    using th1 [THEN conjunct2, THEN conjunct1, THEN mp, OF o2] by simp
  have 3: \<open>''traceId = "api"'' \<in> set (buildFilter_parts 0 ?o)\<close>
    using th1 [THEN conjunct2, THEN conjunct2, THEN conjunct1, THEN mp, OF o3] by simp
  have 4: \<open>''environment = "api"'' \<in> set (buildFilter_parts 0 ?o)\<close>
    using th1 [THEN conjunct2, THEN conjunct2, THEN conjunct2, THEN mp, OF o4] by simp
  have t: "a_traceId (empty_args\<lparr>a_traceId := Some ''api''\<rparr>) = Some ''api''" by simp
  have 5: \<open>p_filter (get_trace_params (empty_args\<lparr>a_traceId := Some ''api''\<rparr>)) = Some ''traceId = "api"''\<close>
    using th [THEN conjunct2, THEN conjunct1, THEN mp, OF t] by simp
  have q: "dquote \<notin> set ''api'' \<and> backslash \<notin> set ''api''" by simp
  have 6: \<open>read_quoted ''api" AND level = "error"'' = Some (''api'', '' AND level = "error"'')\<close>
    using th [THEN conjunct2, THEN conjunct2, THEN mp, OF q] by simp
  show ?thesis
    by (rule conjI [OF 1 conjI [OF 2 conjI [OF 3 conjI [OF 4 conjI [OF 5 6]]]]])
qed

text \<open>
  C1 as stated fails: the value \<^verbatim>\<open>a" OR level = "x\<close> is not escaped, its first double quote
  closes the string after \<^verbatim>\<open>a\<close>, and the rest of the value is left as filter text.
\<close>

theorem filter_quote_counterexample:
  \<open>buildFilter 0 \<lparr>opt_project = Some ''a" OR level = "x'', opt_level = None, opt_traceId = None,
       opt_environment = None, opt_since = None, opt_extraFilter = None\<rparr>
     = Some ''project = "a" OR level = "x"''
   \<and> read_quoted (''a" OR level = "x'' @ [dquote]) = Some (''a'', '' OR level = "x"'')
   \<and> read_quoted (''a" OR level = "x'' @ [dquote]) \<noteq> Some (''a" OR level = "x'', [])\<close>
  by (simp add: buildFilter_def buildFilter_parts_append clause_if_def truthy_def eq_clause_def
      template_str_def)

subsection \<open>The limit and order of search\_logs\<close>

text \<open>
  C2, as the code has it. The limit that search\_logs passes to the engine is 20 when no
  limit or the limit 0 is requested, and otherwise the requested limit capped at 100; for a
  requested limit of at least 1 this is the limit clamped to the interval from 1 to 100.
  No lower bound is applied. The request asks for the order \<^verbatim>\<open>timestamp:desc\<close>, and the hits
  are returned as the engine gave them.
\<close>

theorem search_logs_limit_sort:
  "p_sort (search_logs_params now a) = Some [''timestamp:desc'']
   \<and> (a_limit a = None \<longrightarrow> p_limit (search_logs_params now a) = Some 20)
   \<and> (a_limit a = Some 0 \<longrightarrow> p_limit (search_logs_params now a) = Some 20)
   \<and> (a_limit a = Some l \<and> l \<noteq> 0 \<longrightarrow> p_limit (search_logs_params now a) = Some (min l 100))
   \<and> (a_limit a = Some l \<and> 1 \<le> l \<longrightarrow> p_limit (search_logs_params now a) = Some (max 1 (min l 100)))
   \<and> (search (search_logs_query a) (search_logs_params now a) = Inr results
        \<longrightarrow> search_logs search now (Some a)
            = Inr (ok_result (SearchJson \<lparr>totalHits = estimatedTotalHits results,
                 facets = facetDistribution results, out_hits = hits results\<rparr>)))"
proof (intro conjI impI)
  show "p_sort (search_logs_params now a) = Some [''timestamp:desc'']"
    by (simp add: search_logs_params_def)
  show "p_limit (search_logs_params now a) = Some 20" if "a_limit a = None"
    using that by (simp add: search_logs_params_def or_num_def)
  show "p_limit (search_logs_params now a) = Some 20" if "a_limit a = Some 0"
    using that by (simp add: search_logs_params_def or_num_def)
  show "p_limit (search_logs_params now a) = Some (min l 100)" if "a_limit a = Some l \<and> l \<noteq> 0"
    using that by (simp add: search_logs_params_def or_num_def)
  show "p_limit (search_logs_params now a) = Some (max 1 (min l 100))" if "a_limit a = Some l \<and> 1 \<le> l"
    using that by (simp add: search_logs_params_def or_num_def)
  show "search_logs search now (Some a)
            = Inr (ok_result (SearchJson \<lparr>totalHits = estimatedTotalHits results,
                 facets = facetDistribution results, out_hits = hits results\<rparr>))"
    if "search (search_logs_query a) (search_logs_params now a) = Inr results"
    using that by (simp add: search_logs_def read_args_def search_logs_out_def)
qed

text \<open>
  The same for no limit and for the limits 0, 250 and 7.
\<close>

theorem search_logs_limit_sort_witness:
  "p_limit (search_logs_params 0 empty_args) = Some 20
   \<and> p_limit (search_logs_params 0 (empty_args\<lparr>a_limit := Some 0\<rparr>)) = Some 20
   \<and> p_limit (search_logs_params 0 (empty_args\<lparr>a_limit := Some 250\<rparr>)) = Some 100
   \<and> p_limit (search_logs_params 0 (empty_args\<lparr>a_limit := Some 7\<rparr>)) = Some 7
   \<and> p_sort (search_logs_params 0 empty_args) = Some [''timestamp:desc'']
   \<and> search_logs (\<lambda>q p. Inr empty_response) 0 (Some empty_args)
       = Inr (ok_result (SearchJson \<lparr>totalHits = Some 0, facets = None, out_hits = []\<rparr>))"
proof -
  have 1: "p_limit (search_logs_params 0 empty_args) = Some 20"
    using search_logs_limit_sort [of 0 empty_args] by (simp add: empty_args_def)
  have 2: "p_limit (search_logs_params 0 (empty_args\<lparr>a_limit := Some 0\<rparr>)) = Some 20"
    using search_logs_limit_sort [of 0 "empty_args\<lparr>a_limit := Some 0\<rparr>"] by simp
  have 3: "p_limit (search_logs_params 0 (empty_args\<lparr>a_limit := Some 250\<rparr>)) = Some 100"
    using search_logs_limit_sort [of 0 "empty_args\<lparr>a_limit := Some 250\<rparr>" 250] by simp
  have 4: "p_limit (search_logs_params 0 (empty_args\<lparr>a_limit := Some 7\<rparr>)) = Some 7"
    using search_logs_limit_sort [of 0 "empty_args\<lparr>a_limit := Some 7\<rparr>" 7] by simp
  have 5: "p_sort (search_logs_params 0 empty_args) = Some [''timestamp:desc'']"
    using search_logs_limit_sort [of 0 empty_args] by simp
  have 6: "search_logs (\<lambda>q p. Inr empty_response) 0 (Some empty_args)
       = Inr (ok_result (SearchJson \<lparr>totalHits = Some 0, facets = None, out_hits = []\<rparr>))"
    using search_logs_limit_sort [of 0 empty_args _ "\<lambda>q p. Inr empty_response" empty_response]
    by (simp add: empty_response_def)
  show ?thesis
    by (rule conjI [OF 1 conjI [OF 2 conjI [OF 3 conjI [OF 4 conjI [OF 5 6]]]]])
qed

text \<open>
  C2 as stated fails: a requested limit of \<open>-5\<close> reaches the engine as \<open>-5\<close>, which is not
  in the interval from 1 to 100.
\<close>

theorem search_logs_limit_counterexample:
  "p_limit (search_logs_params 0
      \<lparr>a_query = None, a_project = None, a_level = None, a_traceId = None,
       a_environment = None, a_since = None, a_message = None, a_limit = Some (- 5)\<rparr>) = Some (- 5)
   \<and> \<not> (1 \<le> (- 5 :: int))"
  by (simp add: search_logs_params_def or_num_def)

subsection \<open>The \<^verbatim>\<open>since\<close> duration\<close>



subsection \<open>get\_trace\<close>

text \<open>
  C4. For a trace query with trace id \<open>T\<close>, the engine is asked for the filter
  \<^verbatim>\<open>traceId = "T"\<close>, the order \<^verbatim>\<open>timestamp:asc\<close> and the limit 500. When the engine answers,
  the response's \<open>eventCount\<close> is the number of hits, and its \<open>projects\<close> are the project
  values of the hits with duplicates removed, each at its first occurrence.
\<close>

theorem get_trace_query_shape:
  "(a_traceId a = Some T \<longrightarrow>
      get_trace_params a =
        \<lparr>p_filter = Some (''traceId = '' @ [dquote] @ T @ [dquote]),
         p_sort = Some [''timestamp:asc''], p_limit = Some 500,
         p_facets = None, p_attributesToRetrieve = None\<rparr>
      \<and> (search (Some []) (get_trace_params a) = Inr results \<longrightarrow>
          (\<exists>out. get_trace search (Some a) = Inr (ok_result (TraceJson out))
             \<and> out_traceId out = Some T
             \<and> eventCount out = length (hits results)
             \<and> projects out = new_Set (map h_project (hits results))
             \<and> distinct (projects out)
             \<and> set (projects out) = set (map h_project (hits results))
             \<and> projects out = rev (remdups (rev (map h_project (hits results))))
             \<and> timeline out = map timeline_of (hits results))))"
proof (intro impI conjI)
  assume t: "a_traceId a = Some T"
  then show "get_trace_params a =
        \<lparr>p_filter = Some (''traceId = '' @ [dquote] @ T @ [dquote]),
         p_sort = Some [''timestamp:asc''], p_limit = Some 500,
         p_facets = None, p_attributesToRetrieve = None\<rparr>"
    by (simp add: get_trace_params_def eq_clause_def template_str_def)
  assume s: "search (Some []) (get_trace_params a) = Inr results"
  let ?out = "\<lparr>out_traceId = a_traceId a, eventCount = length (hits results),
      projects = new_Set (map h_project (hits results)),
      timeline = map timeline_of (hits results)\<rparr>"
  have g: "get_trace search (Some a) = Inr (ok_result (TraceJson ?out))"
    using s by (simp add: get_trace_def read_args_def get_trace_out_def Let_def)
  have "out_traceId ?out = Some T" using t by simp
  moreover have "eventCount ?out = length (hits results)" by simp
  moreover have "projects ?out = new_Set (map h_project (hits results))" by simp
  moreover have "distinct (projects ?out)" by (simp add: distinct_new_Set)
  moreover have "set (projects ?out) = set (map h_project (hits results))"
    by (simp only: trace_out.simps set_new_Set)
  moreover have "projects ?out = rev (remdups (rev (map h_project (hits results))))"
    by (simp only: trace_out.simps new_Set_first)
  moreover have "timeline ?out = map timeline_of (hits results)" by simp
  ultimately show "\<exists>out. get_trace search (Some a) = Inr (ok_result (TraceJson out))
             \<and> out_traceId out = Some T
             \<and> eventCount out = length (hits results)
             \<and> projects out = new_Set (map h_project (hits results))
             \<and> distinct (projects out)
             \<and> set (projects out) = set (map h_project (hits results))
             \<and> projects out = rev (remdups (rev (map h_project (hits results))))
             \<and> timeline out = map timeline_of (hits results)"
    using g by blast
qed

text \<open>
  The same for three hits of the projects svcA, svcB, svcA.
\<close>

theorem get_trace_query_shape_witness:
  \<open>get_trace_params (empty_args\<lparr>a_traceId := Some ''T''\<rparr>)
     = \<lparr>p_filter = Some ''traceId = "T"'', p_sort = Some [''timestamp:asc''],
        p_limit = Some 500, p_facets = None, p_attributesToRetrieve = None\<rparr>
   \<and> (\<exists>out. get_trace
          (\<lambda>q p. Inr \<lparr>estimatedTotalHits = Some 3, facetDistribution = None,
             hits = [example_hit ''svcA'' ''a'' ''1'' None,
                     example_hit ''svcB'' ''b'' ''2'' (Some ''1''),
                     example_hit ''svcA'' ''c'' ''3'' (Some ''1'')]\<rparr>)
          (Some (empty_args\<lparr>a_traceId := Some ''T''\<rparr>))
        = Inr (ok_result (TraceJson out))
      \<and> eventCount out = 3
      \<and> projects out = [Some ''svcA'', Some ''svcB''])\<close>
proof -
  let ?a = "empty_args\<lparr>a_traceId := Some ''T''\<rparr>"
  let ?r = "\<lparr>estimatedTotalHits = Some 3, facetDistribution = None,
             hits = [example_hit ''svcA'' ''a'' ''1'' None,
                     example_hit ''svcB'' ''b'' ''2'' (Some ''1''),
                     example_hit ''svcA'' ''c'' ''3'' (Some ''1'')]\<rparr>"
  note th = get_trace_query_shape [of ?a "''T''" "\<lambda>q p. Inr ?r" ?r]
  have t: "a_traceId ?a = Some ''T''" by simp
  note th1 = th [THEN mp, OF t]
  have 1: \<open>get_trace_params ?a
     = \<lparr>p_filter = Some ''traceId = "T"'', p_sort = Some [''timestamp:asc''],
        p_limit = Some 500, p_facets = None, p_attributesToRetrieve = None\<rparr>\<close>
    using th1 [THEN conjunct1] by simp
  have s: "(\<lambda>q p. Inr ?r) (Some []) (get_trace_params ?a) = Inr ?r" by simp
  from th1 [THEN conjunct2, THEN mp, OF s]
  obtain out where g: "get_trace (\<lambda>q p. Inr ?r) (Some ?a) = Inr (ok_result (TraceJson out))"
      and c: "eventCount out = length (hits ?r)"
      and p: "projects out = new_Set (map h_project (hits ?r))"
    by blast
  have c': "eventCount out = 3" using c by simp
  have p': "projects out = [Some ''svcA'', Some ''svcB'']"
    using p by (simp add: new_Set_def set_add_def example_hit_def)
  from g c' p' have 2: "\<exists>out. get_trace (\<lambda>q p. Inr ?r) (Some ?a) = Inr (ok_result (TraceJson out))
      \<and> eventCount out = 3 \<and> projects out = [Some ''svcA'', Some ''svcB'']"
    by blast
  show ?thesis
    by (rule conjI [OF 1 2])
qed

subsection \<open>error\_summary\<close>

text \<open>
  C5. For every error-summary query, the filter is the conjunction of the project clause (when
  a project is given), the clause \<^verbatim>\<open>timestampMs > cutoff\<close> and the disjunction
  \<^verbatim>\<open>(level = "error" OR level = "fatal")\<close>; the cutoff uses the given \<^verbatim>\<open>since\<close>, and one hour
  when none is given; the facets are over project only, the limit is 30 and the order is
  \<^verbatim>\<open>timestamp:desc\<close>. When the engine answers, the response carries \<open>totalErrors\<close>, the
  distribution by project, and \<open>recentErrors\<close>.
\<close>

theorem error_summary_query_shape:
  \<open>error_summary_query a = Some (case a_query a of None \<Rightarrow> [] | Some q \<Rightarrow> q)
   \<and> p_filter (error_summary_params now a)
       = Some (join '' AND ''
           ((if truthy (a_project a) then [''project = '' @ [dquote] @ template_str (a_project a) @ [dquote]]
             else [])
            @ [''timestampMs > '' @ show_int (now - parseDuration (or_str (a_since a) ''1h'')),
               ''(level = "error" OR level = "fatal")'']))
   \<and> (if truthy (a_since a) then or_str (a_since a) ''1h'' = template_str (a_since a)
       else parseDuration (or_str (a_since a) ''1h'') = 3600000)
   \<and> p_sort (error_summary_params now a) = Some [''timestamp:desc'']
   \<and> p_limit (error_summary_params now a) = Some 30
   \<and> p_facets (error_summary_params now a) = Some [''project'']
   \<and> p_attributesToRetrieve (error_summary_params now a) = None
   \<and> (search (error_summary_query a) (error_summary_params now a) = Inr results \<longrightarrow>
        error_summary search now (Some a)
          = Inr (ok_result (ErrorsJson
              \<lparr>totalErrors = estimatedTotalHits results,
               errorsByProject = facet_of (facetDistribution results) ''project'',
               recentErrors = map error_of (hits results)\<rparr>)))\<close>
proof (intro conjI impI)
  show "error_summary_query a = Some (case a_query a of None \<Rightarrow> [] | Some q \<Rightarrow> q)"
    by (simp add: error_summary_query_def or_str_def split: option.splits)
  have s: "truthy (Some (or_str (a_since a) ''1h''))"
    by (simp add: or_str_truthy)
  have e: "truthy (Some error_levels)"
    by (simp add: truthy_def error_levels_def)
  show \<open>p_filter (error_summary_params now a)
       = Some (join '' AND ''
           ((if truthy (a_project a) then [''project = '' @ [dquote] @ template_str (a_project a) @ [dquote]]
             else [])
            @ [''timestampMs > '' @ show_int (now - parseDuration (or_str (a_since a) ''1h'')),
               ''(level = "error" OR level = "fatal")'']))\<close>
    using s e
    by (simp add: error_summary_params_def buildFilter_def buildFilter_parts_append clause_if_def
        eq_clause_def since_clause_def template_str_def error_levels_def truthy_None)
  show "if truthy (a_since a) then or_str (a_since a) ''1h'' = template_str (a_since a)
       else parseDuration (or_str (a_since a) ''1h'') = 3600000"
    by (auto simp: truthy_def or_str_def template_str_def parseDuration_1h split: option.splits)
  show "p_sort (error_summary_params now a) = Some [''timestamp:desc'']"
    by (simp add: error_summary_params_def)
  show "p_limit (error_summary_params now a) = Some 30"
    by (simp add: error_summary_params_def)
  show "p_facets (error_summary_params now a) = Some [''project'']"
    by (simp add: error_summary_params_def)
  show "p_attributesToRetrieve (error_summary_params now a) = None"
    by (simp add: error_summary_params_def)
  show "error_summary search now (Some a)
          = Inr (ok_result (ErrorsJson
              \<lparr>totalErrors = estimatedTotalHits results,
               errorsByProject = facet_of (facetDistribution results) ''project'',
               recentErrors = map error_of (hits results)\<rparr>))"
    if "search (error_summary_query a) (error_summary_params now a) = Inr results"
    using that by (simp add: error_summary_def read_args_def error_summary_out_def)
qed

text \<open>
  The same with no argument, and with a project and \<^verbatim>\<open>since = "2d"\<close>.
\<close>

theorem error_summary_query_shape_witness:
  \<open>p_filter (error_summary_params 1700000000000 empty_args)
       = Some ''timestampMs > 1699996400000 AND (level = "error" OR level = "fatal")''
   \<and> p_filter (error_summary_params 1700000000000
          (empty_args\<lparr>a_project := Some ''api'', a_since := Some ''2d''\<rparr>))
       = Some ''project = "api" AND timestampMs > 1699827200000 AND (level = "error" OR level = "fatal")''
   \<and> p_limit (error_summary_params 1700000000000 empty_args) = Some 30
   \<and> p_facets (error_summary_params 1700000000000 empty_args) = Some [''project'']
   \<and> error_summary (\<lambda>q p. Inr empty_response) 1700000000000 (Some empty_args)
       = Inr (ok_result (ErrorsJson
              \<lparr>totalErrors = Some 0, errorsByProject = None, recentErrors = []\<rparr>))\<close>
proof -
  note th = error_summary_query_shape [of empty_args 1700000000000 "\<lambda>q p. Inr empty_response"
      empty_response]
  note th2 = error_summary_query_shape
      [of "empty_args\<lparr>a_project := Some ''api'', a_since := Some ''2d''\<rparr>" 1700000000000]
  have d1: "parseDuration ''1h'' = 3600000" by (rule parseDuration_1h)
  have d2: "parseDuration ''2d'' = 172800000"
    by (simp add: parseDuration_def match_duration_def is_digit_def is_unit_letter_def
        parseInt_def digit_val_def units_def or_num_def)
  have s1: "show_int 1699996400000 = ''1699996400000''"
    by (simp add: show_int_def show_nat.simps digit_char_def)
  have s2: "show_int 1699827200000 = ''1699827200000''"
    by (simp add: show_int_def show_nat.simps digit_char_def)
  have 1: \<open>p_filter (error_summary_params 1700000000000 empty_args)
       = Some ''timestampMs > 1699996400000 AND (level = "error" OR level = "fatal")''\<close>
    using th [THEN conjunct2, THEN conjunct1]
    by (simp add: empty_args_def truthy_None or_str_def d1 s1)
  have 2: \<open>p_filter (error_summary_params 1700000000000
          (empty_args\<lparr>a_project := Some ''api'', a_since := Some ''2d''\<rparr>))
       = Some ''project = "api" AND timestampMs > 1699827200000 AND (level = "error" OR level = "fatal")''\<close>
    using th2 [THEN conjunct2, THEN conjunct1]
    by (simp add: truthy_Some or_str_def template_str_def d2 s2)
  have 3: "p_limit (error_summary_params 1700000000000 empty_args) = Some 30"
    using th by simp
  have 4: "p_facets (error_summary_params 1700000000000 empty_args) = Some [''project'']"
    using th by simp
  have 5: "error_summary (\<lambda>q p. Inr empty_response) 1700000000000 (Some empty_args)
       = Inr (ok_result (ErrorsJson
              \<lparr>totalErrors = Some 0, errorsByProject = None, recentErrors = []\<rparr>))"
    using th by (simp add: empty_response_def facet_of_def)
  show ?thesis
    by (rule conjI [OF 1 conjI [OF 2 conjI [OF 3 conjI [OF 4 5]]]])
qed

subsection \<open>The filter as a conjunction\<close>

text \<open>
  C6, as the code has it. For every combination of the optional components, the filter is
  the clauses of the components that are given and not empty, joined with \<^verbatim>\<open>" AND "\<close>, and
  there is no filter when there is no such component: a component that is the empty string
  counts as absent. Reading the filter as the conjunction of its clauses, options that
  extend others yield a filter that no more records satisfy.
\<close>

theorem buildFilter_conjunction:
  "buildFilter now opts =
     (if spec_filter_clauses now opts = [] then None
      else Some (join '' AND '' (spec_filter_clauses now opts)))
   \<and> (extends_opts opts opts' \<longrightarrow>
        satisfying holds (spec_filter_clauses now opts')
          \<subseteq> satisfying holds (spec_filter_clauses now opts))"
proof (intro conjI impI)
  show "buildFilter now opts =
     (if spec_filter_clauses now opts = [] then None
      else Some (join '' AND '' (spec_filter_clauses now opts)))"
    by (simp add: buildFilter_def buildFilter_parts_spec)
  assume "extends_opts opts opts'"
  then have "set (spec_filter_clauses now opts) \<subseteq> set (spec_filter_clauses now opts')"
    using parts_mono [of opts opts' now] by (simp only: buildFilter_parts_spec)
  then show "satisfying holds (spec_filter_clauses now opts')
          \<subseteq> satisfying holds (spec_filter_clauses now opts)"
    by (rule satisfying_antimono)
qed

text \<open>
  The same for the options with a project, extended by a level.
\<close>

theorem buildFilter_conjunction_witness:
  \<open>extends_opts (no_opts\<lparr>opt_project := Some ''api''\<rparr>)
      (no_opts\<lparr>opt_project := Some ''api'', opt_level := Some ''error''\<rparr>)
   \<and> buildFilter 0 (no_opts\<lparr>opt_project := Some ''api''\<rparr>) = Some ''project = "api"''
   \<and> buildFilter 0 (no_opts\<lparr>opt_project := Some ''api'', opt_level := Some ''error''\<rparr>)
       = Some ''project = "api" AND level = "error"''
   \<and> buildFilter 0 no_opts = None
   \<and> satisfying (\<lambda>c r. c \<in> set r) [''project = "api"'', ''level = "error"'']
       \<subseteq> satisfying (\<lambda>c r. c \<in> set r) [''project = "api"'']\<close>
proof -
  let ?o = "no_opts\<lparr>opt_project := Some ''api''\<rparr>"
  let ?o' = "no_opts\<lparr>opt_project := Some ''api'', opt_level := Some ''error''\<rparr>"
  have c: \<open>spec_filter_clauses 0 ?o = [''project = "api"'']\<close>
    by (simp add: spec_filter_clauses_def spec_eq_clause_def spec_since_clause_def
        spec_extra_clause_def no_opts_def)
  have c': \<open>spec_filter_clauses 0 ?o' = [''project = "api"'', ''level = "error"'']\<close>
    by (simp add: spec_filter_clauses_def spec_eq_clause_def spec_since_clause_def
        spec_extra_clause_def no_opts_def)
  have c0: "spec_filter_clauses 0 no_opts = []"
    by (simp add: spec_filter_clauses_def spec_eq_clause_def spec_since_clause_def
        spec_extra_clause_def no_opts_def)
  have e: "extends_opts ?o ?o'"
    by (simp add: extends_opts_def no_opts_def truthy_None)
  have 1: \<open>buildFilter 0 ?o = Some ''project = "api"''\<close>
    using buildFilter_conjunction [of 0 ?o, THEN conjunct1] by (simp add: c)
  have 2: \<open>buildFilter 0 ?o' = Some ''project = "api" AND level = "error"''\<close>
    using buildFilter_conjunction [of 0 ?o', THEN conjunct1] by (simp add: c')
  have 3: "buildFilter 0 no_opts = None"
    using buildFilter_conjunction [of 0 no_opts, THEN conjunct1] by (simp add: c0)
  have 4: \<open>satisfying (\<lambda>c r. c \<in> set r) [''project = "api"'', ''level = "error"'']
       \<subseteq> satisfying (\<lambda>c r. c \<in> set r) [''project = "api"'']\<close>
    using buildFilter_conjunction [of 0 ?o ?o' "\<lambda>c r. c \<in> set r", THEN conjunct2, THEN mp, OF e]
    by (simp only: c c')
  show ?thesis
    by (rule conjI [OF e conjI [OF 1 conjI [OF 2 conjI [OF 3 4]]]])
qed

text \<open>
  C6 as stated fails: with the project given as the empty string, the component is present
  and no filter is built.
\<close>

theorem buildFilter_empty_component_counterexample:
  "opt_project \<lparr>opt_project = Some [], opt_level = None, opt_traceId = None,
       opt_environment = None, opt_since = None, opt_extraFilter = None\<rparr> = Some []
   \<and> buildFilter 0 \<lparr>opt_project = Some [], opt_level = None, opt_traceId = None,
       opt_environment = None, opt_since = None, opt_extraFilter = None\<rparr> = None"
  by (simp add: buildFilter_def buildFilter_parts_append clause_if_def truthy_def)

subsection \<open>list\_projects\<close>

text \<open>
  C7. For every projects-overview query the engine is called with the empty search string,
  the limit 0 and the facets project, level and environment, with no filter; when the engine
  answers, the response is \<open>totalLogs\<close> and the three distributions \<open>byProject\<close>, \<open>byLevel\<close>
  and \<open>byEnvironment\<close>.
\<close>

theorem list_projects_query_shape:
  "list_projects_params =
     \<lparr>p_filter = None, p_sort = None, p_limit = Some 0,
      p_facets = Some [''project'', ''level'', ''environment''], p_attributesToRetrieve = None\<rparr>
   \<and> (search (Some []) list_projects_params = Inr results \<longrightarrow>
        tools_call search now \<lparr>req_name = ''list_projects'', req_arguments = args\<rparr>
          = Inr (ok_result (ProjectsJson
              \<lparr>totalLogs = estimatedTotalHits results,
               byProject = facet_of (facetDistribution results) ''project'',
               byLevel = facet_of (facetDistribution results) ''level'',
               byEnvironment = facet_of (facetDistribution results) ''environment''\<rparr>)))"
  by (simp add: list_projects_params_def tools_call_def tool_switch_def list_projects_def
      list_projects_out_def)

text \<open>
  The same for an engine that reports three logs.
\<close>

theorem list_projects_query_shape_witness:
  "tools_call
     (\<lambda>q p. Inr \<lparr>estimatedTotalHits = Some 3,
        facetDistribution = Some [(''project'', [(''api'', 2), (''web'', 1)]),
                                  (''level'', [(''info'', 3)]),
                                  (''environment'', [(''dev'', 3)])],
        hits = []\<rparr>)
     0 \<lparr>req_name = ''list_projects'', req_arguments = None\<rparr>
   = Inr (ok_result (ProjectsJson
        \<lparr>totalLogs = Some 3, byProject = Some [(''api'', 2), (''web'', 1)],
         byLevel = Some [(''info'', 3)], byEnvironment = Some [(''dev'', 3)]\<rparr>))"
proof -
  let ?r = "\<lparr>estimatedTotalHits = Some 3,
        facetDistribution = Some [(''project'', [(''api'', 2), (''web'', 1)]),
                                  (''level'', [(''info'', 3)]),
                                  (''environment'', [(''dev'', 3)])],
        hits = []\<rparr>"
  have s: "(\<lambda>q p. Inr ?r) (Some []) list_projects_params = Inr ?r" by simp
  from list_projects_query_shape [of "\<lambda>q p. Inr ?r" ?r 0 None, THEN conjunct2, THEN mp, OF s]
  show ?thesis
    by (simp add: facet_of_def)
qed

subsection \<open>The environment of emitted entries\<close>

text \<open>
  C8, as the code has it. Every entry emitted by the Node SDK or by the browser SDK, over any
  sequence of calls and events, has the environment \<^verbatim>\<open>"dev"\<close> when the options give no
  environment or the empty string, and the environment of the options otherwise. Each call of
  \<^verbatim>\<open>log\<close> emits one such entry.
\<close>

theorem sdk_environment_default:
  "list_all (\<lambda>e. e_environment e =
        (case lo_environment opts of None \<Rightarrow> ''dev'' | Some env \<Rightarrow> if env = [] then ''dev'' else env))
     (emitted (node_run opts uuid ops))
   \<and> list_all (\<lambda>e. be_environment e =
        (case bo_environment bopts of None \<Rightarrow> ''dev'' | Some env \<Rightarrow> if env = [] then ''dev'' else env))
     (browser_emitted (browser_run bopts pg bops))
   \<and> emitted (log opts ts level message extra st)
       = emitted st @ [log_entry opts ts level message extra]
   \<and> e_environment (log_entry opts ts level message extra)
       = (case lo_environment opts of None \<Rightarrow> ''dev'' | Some env \<Rightarrow> if env = [] then ''dev'' else env)
   \<and> map be_environment (b_queue (browser_log bopts pg ts level message meta bst))
       = map be_environment (b_queue bst)
          @ [case bo_environment bopts of None \<Rightarrow> ''dev'' | Some env \<Rightarrow> if env = [] then ''dev'' else env]"
proof (intro conjI)
  have "list_all (\<lambda>e. e_environment e = or_str (lo_environment opts) ''dev'') (emitted createLogger)"
    by (simp add: emitted_def createLogger_def)
  then have "list_all (\<lambda>e. e_environment e = or_str (lo_environment opts) ''dev'')
      (emitted (node_run opts uuid ops))"
    unfolding node_run_def by (rule node_foldl_environment)
  then show "list_all (\<lambda>e. e_environment e =
        (case lo_environment opts of None \<Rightarrow> ''dev'' | Some env \<Rightarrow> if env = [] then ''dev'' else env))
     (emitted (node_run opts uuid ops))"
    by (simp only: or_str_cases)
  have "list_all (\<lambda>e. be_environment e = or_str (bo_environment bopts) ''dev'')
      (browser_emitted createBrowserLogger)"
    by (simp add: browser_emitted_def createBrowserLogger_def)
  then have "list_all (\<lambda>e. be_environment e = or_str (bo_environment bopts) ''dev'')
      (browser_emitted (browser_run bopts pg bops))"
    unfolding browser_run_def by (rule browser_foldl_environment)
  then show "list_all (\<lambda>e. be_environment e =
        (case bo_environment bopts of None \<Rightarrow> ''dev'' | Some env \<Rightarrow> if env = [] then ''dev'' else env))
     (browser_emitted (browser_run bopts pg bops))"
    by (simp only: or_str_cases)
  show "emitted (log opts ts level message extra st)
       = emitted st @ [log_entry opts ts level message extra]"
    by (rule emitted_log)
  show "e_environment (log_entry opts ts level message extra)
       = (case lo_environment opts of None \<Rightarrow> ''dev'' | Some env \<Rightarrow> if env = [] then ''dev'' else env)"
    by (simp only: environment_log_entry or_str_cases)
  show "map be_environment (b_queue (browser_log bopts pg ts level message meta bst))
       = map be_environment (b_queue bst)
          @ [case bo_environment bopts of None \<Rightarrow> ''dev'' | Some env \<Rightarrow> if env = [] then ''dev'' else env]"
    by (simp add: browser_log_def or_str_cases)
qed

text \<open>
  The same for a run of three steps, with the environment \<^verbatim>\<open>"prod"\<close> and with none.
\<close>

theorem sdk_environment_default_witness:
  "list_all (\<lambda>e. e_environment e = ''prod'')
     (emitted (node_run (example_options\<lparr>lo_environment := Some ''prod''\<rparr>) example_uuid
        [Log ''t0'' ''warn'' ''disk low'' None, WsOpen, StartTrace ''t1'' ''checkout'']))
   \<and> list_all (\<lambda>e. e_environment e = ''dev'')
     (emitted (node_run example_options example_uuid
        [Log ''t0'' ''warn'' ''disk low'' None, WsOpen, StartTrace ''t1'' ''checkout'']))
   \<and> length (emitted (node_run example_options example_uuid
        [Log ''t0'' ''warn'' ''disk low'' None, WsOpen, StartTrace ''t1'' ''checkout''])) = 2"
proof -
  have 1: "list_all (\<lambda>e. e_environment e = ''prod'')
     (emitted (node_run (example_options\<lparr>lo_environment := Some ''prod''\<rparr>) example_uuid
        [Log ''t0'' ''warn'' ''disk low'' None, WsOpen, StartTrace ''t1'' ''checkout'']))"
    using sdk_environment_default [of "example_options\<lparr>lo_environment := Some ''prod''\<rparr>"
        example_uuid "[Log ''t0'' ''warn'' ''disk low'' None, WsOpen, StartTrace ''t1'' ''checkout'']",
        THEN conjunct1]
    by simp
  have 2: "list_all (\<lambda>e. e_environment e = ''dev'')
     (emitted (node_run example_options example_uuid
        [Log ''t0'' ''warn'' ''disk low'' None, WsOpen, StartTrace ''t1'' ''checkout'']))"
    using sdk_environment_default [of example_options
        example_uuid "[Log ''t0'' ''warn'' ''disk low'' None, WsOpen, StartTrace ''t1'' ''checkout'']",
        THEN conjunct1]
    by (simp add: example_options_def)
  have 3: "length (emitted (node_run example_options example_uuid
        [Log ''t0'' ''warn'' ''disk low'' None, WsOpen, StartTrace ''t1'' ''checkout''])) = 2"
    by (simp add: node_run_def log_def flush_def ws_open_def startTrace_def randomUUID_def
        Let_def emitted_def createLogger_def batchSize_def example_options_def)
  show ?thesis
    by (rule conjI [OF 1 conjI [OF 2 3]])
qed

text \<open>
  C8 as stated fails: with the environment given as the empty string, the emitted entry
  carries \<^verbatim>\<open>"dev"\<close>, not the value of the options.
\<close>

theorem sdk_environment_empty_counterexample:
  "lo_environment \<lparr>lo_serverUrl = ''ws://localhost:4800/ws'', lo_project = ''api'',
       lo_environment = Some [], lo_batchMs = None, lo_batchSize = None\<rparr> = Some []
   \<and> map e_environment (emitted (node_run
        \<lparr>lo_serverUrl = ''ws://localhost:4800/ws'', lo_project = ''api'',
         lo_environment = Some [], lo_batchMs = None, lo_batchSize = None\<rparr>
        (\<lambda>n. []) [Log ''2026-01-01T00:00:00.000Z'' ''info'' ''started'' None])) = [''dev'']
   \<and> map be_environment (browser_emitted (browser_run
        \<lparr>bo_endpoint = ''http://localhost:4800/ingest'', bo_project = ''web'',
         bo_environment = Some [], bo_flushMs = None, bo_captureErrors = None,
         bo_captureConsole = None\<rparr>
        \<lparr>has_document = True, has_window = True, href = None, has_sendBeacon = True\<rparr>
        [BLog ''2026-01-01T00:00:00.000Z'' ''info'' ''loaded'' None])) = [''dev'']"
  by (simp add: node_run_def createLogger_def log_def log_entry_def batchSize_def emitted_def
      or_str_def extra_field_def browser_run_def createBrowserLogger_def browser_log_def
      browser_emitted_def)

subsection \<open>Propagation of the trace context\<close>

text \<open>
  C9. Let \<^verbatim>\<open>randomUUID\<close> return non-empty strings. For a trace \<open>t\<close> of \<^verbatim>\<open>startTrace\<close>, the
  context \<open>c\<close> that \<^verbatim>\<open>continueTrace(t.headers(), name2)\<close> returns, on any logger, has the
  trace id of \<open>t\<close>, a span id that is the result of one new call of \<^verbatim>\<open>randomUUID\<close>, and
  headers whose \<^verbatim>\<open>x-parent-span-id\<close> is the span id of \<open>t\<close>. A child span made by \<^verbatim>\<open>span\<close>
  on a context \<open>p\<close> has the trace id of \<open>p\<close>, the span id of \<open>p\<close> as its parent, and a newly
  drawn span id. When \<^verbatim>\<open>randomUUID\<close> never returns the same string twice, a newly drawn id
  differs from every id drawn before, among them the ids of \<open>t\<close> when the same source of
  identifiers is continued.
\<close>

theorem trace_context_roundtrip:
  assumes nonempty: "\<forall>n. uuid n \<noteq> []"
    and start: "startTrace opts uuid ts name s0 = (t, s1)"
    and continue: "continueTrace opts' uuid' ts' (map_of (trace_headers t)) name2 s = (c, s2)"
    and child: "span opts'' uuid'' ts'' p childName s3 = (sp, s4)"
  shows "tc_traceId c = tc_traceId t
   \<and> tc_spanId c = uuid' (next_uuid s)
   \<and> next_uuid s2 = Suc (next_uuid s)
   \<and> (inj uuid' \<longrightarrow> tc_spanId c \<notin> uuid' ` {..< next_uuid s})
   \<and> (inj uuid' \<and> uuid' = uuid \<and> next_uuid s1 \<le> next_uuid s
        \<longrightarrow> tc_spanId c \<noteq> tc_spanId t \<and> tc_spanId c \<noteq> tc_traceId t)
   \<and> map_of (trace_headers c) ''x-parent-span-id'' = Some (tc_spanId t)
   \<and> map_of (trace_headers c) ''x-trace-id'' = Some (tc_traceId t)
   \<and> sc_traceId sp = tc_traceId p
   \<and> sc_parentSpanId sp = tc_spanId p
   \<and> sc_spanId sp = uuid'' (next_uuid s3)
   \<and> (inj uuid'' \<longrightarrow> sc_spanId sp \<notin> uuid'' ` {..< next_uuid s3})
   \<and> map_of (span_headers sp) ''x-trace-id'' = Some (tc_traceId p)
   \<and> map_of (span_headers sp) ''x-parent-span-id'' = Some (tc_spanId p)"
proof -
  from startTrace_ids [OF start]
  have t1: "tc_traceId t = uuid (next_uuid s0)" and t2: "tc_spanId t = uuid (Suc (next_uuid s0))"
    and t3: "tc_continued t = False" and n1: "next_uuid s1 = Suc (Suc (next_uuid s0))"
    by simp_all
  have h1: "map_of (trace_headers t) ''x-trace-id'' = Some (tc_traceId t)"
    and h2: "map_of (trace_headers t) ''x-span-id'' = Some (tc_spanId t)"
    using t3 by (simp_all add: trace_headers_def)
  have ne: "tc_traceId t \<noteq> []"
    using nonempty t1 by simp
  from continueTrace_ids [OF continue h1 ne]
  have c1: "tc_traceId c = tc_traceId t" and c2: "tc_spanId c = uuid' (next_uuid s)"
    and c3: "tc_parentSpanId c = Some (tc_spanId t)" and c4: "tc_continued c = True"
    and c0: "next_uuid s2 = Suc (next_uuid s)"
    using h2 by simp_all
  have fresh: "f k \<notin> f ` {..< k}" if "inj f" for f :: "nat \<Rightarrow> string" and k
    by (auto simp: inj_eq [OF that])
  have c5: "inj uuid' \<longrightarrow> tc_spanId c \<notin> uuid' ` {..< next_uuid s}"
    using fresh c2 by simp
  have c6: "inj uuid' \<and> uuid' = uuid \<and> next_uuid s1 \<le> next_uuid s
        \<longrightarrow> tc_spanId c \<noteq> tc_spanId t \<and> tc_spanId c \<noteq> tc_traceId t"
  proof
    assume a: "inj uuid' \<and> uuid' = uuid \<and> next_uuid s1 \<le> next_uuid s"
    then have e: "uuid' = uuid" and le: "next_uuid s1 \<le> next_uuid s" by blast+
    from a e have i: "inj uuid" by blast
    from c2 e have c2': "tc_spanId c = uuid (next_uuid s)" by simp
    from le n1 have "next_uuid s \<noteq> Suc (next_uuid s0)" and "next_uuid s \<noteq> next_uuid s0"
      by simp_all
    then show "tc_spanId c \<noteq> tc_spanId t \<and> tc_spanId c \<noteq> tc_traceId t"
      using c2' t1 t2 by (simp add: inj_eq [OF i])
  qed
  have c8: "map_of (trace_headers c) ''x-parent-span-id'' = Some (tc_spanId t)"
    using c3 c4 by (simp add: trace_headers_def or_str_def)
  have c9: "map_of (trace_headers c) ''x-trace-id'' = Some (tc_traceId t)"
    using c1 c4 by (simp add: trace_headers_def)
  from span_ids [OF child]
  have p1: "sc_traceId sp = tc_traceId p" and p2: "sc_parentSpanId sp = tc_spanId p"
    and p3: "sc_spanId sp = uuid'' (next_uuid s3)"
    by simp_all
  have p4: "inj uuid'' \<longrightarrow> sc_spanId sp \<notin> uuid'' ` {..< next_uuid s3}"
    using fresh p3 by simp
  have p5: "map_of (span_headers sp) ''x-trace-id'' = Some (tc_traceId p)"
    using p1 by (simp add: span_headers_def)
  have p6: "map_of (span_headers sp) ''x-parent-span-id'' = Some (tc_spanId p)"
    using p2 by (simp add: span_headers_def)
  show ?thesis
    using c1 c2 c0 c5 c6 c8 c9 p1 p2 p3 p4 p5 p6 by (intro conjI)
qed

text \<open>
  The same for the identifiers \<^verbatim>\<open>id-0\<close>, \<^verbatim>\<open>id-1\<close>, \<^verbatim>\<open>id-2\<close>.
\<close>

theorem trace_context_roundtrip_witness:
  "(\<forall>n. example_uuid n \<noteq> [])
   \<and> inj example_uuid
   \<and> tc_traceId (fst (startTrace example_options example_uuid ''t0'' ''checkout'' createLogger)) = ''id-0''
   \<and> tc_spanId (fst (startTrace example_options example_uuid ''t0'' ''checkout'' createLogger)) = ''id-1''
   \<and> tc_traceId (fst (continueTrace example_options example_uuid ''t1''
        (map_of (trace_headers (fst (startTrace example_options example_uuid ''t0'' ''checkout'' createLogger))))
        ''payment''
        (snd (startTrace example_options example_uuid ''t0'' ''checkout'' createLogger)))) = ''id-0''
   \<and> tc_spanId (fst (continueTrace example_options example_uuid ''t1''
        (map_of (trace_headers (fst (startTrace example_options example_uuid ''t0'' ''checkout'' createLogger))))
        ''payment''
        (snd (startTrace example_options example_uuid ''t0'' ''checkout'' createLogger)))) = ''id-2''
   \<and> tc_spanId (fst (continueTrace example_options example_uuid ''t1''
        (map_of (trace_headers (fst (startTrace example_options example_uuid ''t0'' ''checkout'' createLogger))))
        ''payment''
        (snd (startTrace example_options example_uuid ''t0'' ''checkout'' createLogger))))
       \<noteq> tc_spanId (fst (startTrace example_options example_uuid ''t0'' ''checkout'' createLogger))
   \<and> tc_spanId (fst (continueTrace example_options example_uuid ''t1''
        (map_of (trace_headers (fst (startTrace example_options example_uuid ''t0'' ''checkout'' createLogger))))
        ''payment''
        (snd (startTrace example_options example_uuid ''t0'' ''checkout'' createLogger))))
       \<notin> example_uuid ` {..< next_uuid (snd (startTrace example_options example_uuid ''t0'' ''checkout'' createLogger))}
   \<and> sc_spanId (fst (span example_options example_uuid ''t2''
        (fst (startTrace example_options example_uuid ''t0'' ''checkout'' createLogger)) ''db''
        (snd (startTrace example_options example_uuid ''t0'' ''checkout'' createLogger))))
       \<notin> example_uuid ` {..< next_uuid (snd (startTrace example_options example_uuid ''t0'' ''checkout'' createLogger))}
   \<and> map_of (trace_headers (fst (continueTrace example_options example_uuid ''t1''
        (map_of (trace_headers (fst (startTrace example_options example_uuid ''t0'' ''checkout'' createLogger))))
        ''payment''
        (snd (startTrace example_options example_uuid ''t0'' ''checkout'' createLogger)))))
        ''x-parent-span-id'' = Some ''id-1''
   \<and> sc_traceId (fst (span example_options example_uuid ''t2''
        (fst (startTrace example_options example_uuid ''t0'' ''checkout'' createLogger)) ''db''
        (snd (startTrace example_options example_uuid ''t0'' ''checkout'' createLogger)))) = ''id-0''
   \<and> sc_parentSpanId (fst (span example_options example_uuid ''t2''
        (fst (startTrace example_options example_uuid ''t0'' ''checkout'' createLogger)) ''db''
        (snd (startTrace example_options example_uuid ''t0'' ''checkout'' createLogger)))) = ''id-1''"
proof -
  define t where "t = fst (startTrace example_options example_uuid ''t0'' ''checkout'' createLogger)"
  define s1 where "s1 = snd (startTrace example_options example_uuid ''t0'' ''checkout'' createLogger)"
  define c where "c = fst (continueTrace example_options example_uuid ''t1''
      (map_of (trace_headers t)) ''payment'' s1)"
  define s2 where "s2 = snd (continueTrace example_options example_uuid ''t1''
      (map_of (trace_headers t)) ''payment'' s1)"
  define sp where "sp = fst (span example_options example_uuid ''t2'' t ''db'' s1)"
  define s4 where "s4 = snd (span example_options example_uuid ''t2'' t ''db'' s1)"
  have start: "startTrace example_options example_uuid ''t0'' ''checkout'' createLogger = (t, s1)"
    by (simp add: t_def s1_def)
  have continue: "continueTrace example_options example_uuid ''t1''
      (map_of (trace_headers t)) ''payment'' s1 = (c, s2)"
    by (simp add: c_def s2_def)
  have child: "span example_options example_uuid ''t2'' t ''db'' s1 = (sp, s4)"
    by (simp add: sp_def s4_def)
  note th = trace_context_roundtrip [OF example_uuid_nonempty start continue child]
  have same: "inj example_uuid \<and> example_uuid = example_uuid \<and> next_uuid s1 \<le> next_uuid s1"
    using inj_example_uuid by simp
  have z: "next_uuid createLogger = 0" by (simp add: createLogger_def)
  have u0: "example_uuid 0 = ''id-0''"
    by (simp add: example_uuid_def show_nat.simps digit_char_def)
  have u1: "example_uuid (Suc 0) = ''id-1''"
    by (simp add: example_uuid_def show_nat.simps digit_char_def)
  have u2: "example_uuid (Suc (Suc 0)) = ''id-2''"
    by (simp add: example_uuid_def show_nat.simps digit_char_def)
  from startTrace_ids [OF start]
  have t1: "tc_traceId t = ''id-0''" and t2: "tc_spanId t = ''id-1''"
    and n1: "next_uuid s1 = Suc (Suc 0)"
    by (simp_all add: z u0 u1)
  from th have c1: "tc_traceId c = ''id-0''" by (simp add: t1)
  from th have c2: "tc_spanId c = ''id-2''" by (simp add: n1 u2)
  from th same have c4: "tc_spanId c \<noteq> tc_spanId t" by blast
  from th inj_example_uuid have c5: "tc_spanId c \<notin> example_uuid ` {..< next_uuid s1}" by blast
  from th inj_example_uuid have p4: "sc_spanId sp \<notin> example_uuid ` {..< next_uuid s1}" by blast
  from th have c3: "map_of (trace_headers c) ''x-parent-span-id'' = Some ''id-1''"
    by (simp add: t2)
  from th have p1: "sc_traceId sp = ''id-0''" by (simp add: t1)
  from th have p2: "sc_parentSpanId sp = ''id-1''" by (simp add: t2)
  show ?thesis
    using example_uuid_nonempty inj_example_uuid t1 t2 c1 c2 c4 c5 p4 c3 p1 p2
    unfolding t_def s1_def c_def sp_def
    by (intro conjI)
qed

subsection \<open>Totality of the \<^verbatim>\<open>tools/call\<close> handler\<close>

text \<open>
  C10. For every request the handler returns a result and lets no exception through. A name
  that is none of the six tools gives a result with \<open>isError\<close> set and the text
  \<^verbatim>\<open>Unknown tool: <name>\<close>; an exception thrown while a tool runs gives a result with
  \<open>isError\<close> set and the text \<^verbatim>\<open>Error: \<close> followed by the error's message; a result that a
  tool returns is returned unchanged.
\<close>

theorem tools_call_total:
  "(\<exists>r. tools_call search now request = Inr r)
   \<and> (req_name request \<notin> set [''search_logs'', ''get_trace'', ''tail_logs'', ''list_projects'',
         ''error_summary'', ''find_similar'']
      \<longrightarrow> tools_call search now request
            = Inr \<lparr>result_content = Text (''Unknown tool: '' @ req_name request), isError = True\<rparr>)
   \<and> (tool_switch search now (req_name request) (req_arguments request) = Inl err
      \<longrightarrow> tools_call search now request
            = Inr \<lparr>result_content = Text (''Error: '' @ err_message err), isError = True\<rparr>)
   \<and> (tool_switch search now (req_name request) (req_arguments request) = Inr r'
      \<longrightarrow> tools_call search now request = Inr r')"
proof (intro conjI impI)
  show "\<exists>r. tools_call search now request = Inr r"
    by (cases "tool_switch search now (req_name request) (req_arguments request)")
       (simp_all add: tools_call_def)
  show "tools_call search now request
            = Inr \<lparr>result_content = Text (''Unknown tool: '' @ req_name request), isError = True\<rparr>"
    if "req_name request \<notin> set [''search_logs'', ''get_trace'', ''tail_logs'', ''list_projects'',
         ''error_summary'', ''find_similar'']"
  proof -
    from that have "tool_switch search now (req_name request) (req_arguments request)
        = Inr (error_result (''Unknown tool: '' @ req_name request))"
      by (simp add: tool_switch_def)
    then show ?thesis
      by (simp add: tools_call_def error_result_def)
  qed
  show "tools_call search now request
            = Inr \<lparr>result_content = Text (''Error: '' @ err_message err), isError = True\<rparr>"
    if "tool_switch search now (req_name request) (req_arguments request) = Inl err"
    using that by (simp add: tools_call_def error_result_def)
  show "tools_call search now request = Inr r'"
    if "tool_switch search now (req_name request) (req_arguments request) = Inr r'"
    using that by (simp add: tools_call_def)
qed

text \<open>
  The same for an unknown tool, for an engine that rejects, for one that answers, and for
  a call of get\_trace with no arguments.
\<close>

theorem tools_call_total_witness:
  "tools_call (\<lambda>q p. Inr empty_response) 0 \<lparr>req_name = ''drop_index'', req_arguments = None\<rparr>
     = Inr \<lparr>result_content = Text ''Unknown tool: drop_index'', isError = True\<rparr>
   \<and> tools_call (\<lambda>q p. Inl (Thrown ''connect ECONNREFUSED'')) 0
        \<lparr>req_name = ''list_projects'', req_arguments = None\<rparr>
     = Inr \<lparr>result_content = Text ''Error: connect ECONNREFUSED'', isError = True\<rparr>
   \<and> tools_call (\<lambda>q p. Inr empty_response) 0
        \<lparr>req_name = ''list_projects'', req_arguments = None\<rparr>
     = Inr (ok_result (ProjectsJson
        \<lparr>totalLogs = Some 0, byProject = None, byLevel = None, byEnvironment = None\<rparr>))
   \<and> tools_call (\<lambda>q p. Inr empty_response) 0
        \<lparr>req_name = ''get_trace'', req_arguments = None\<rparr>
     = Inr \<lparr>result_content = Text (''Error: Cannot read properties of undefined (reading ''
              @ [CHR 0x27] @ ''traceId'' @ [CHR 0x27] @ '')''), isError = True\<rparr>"
proof -
  have n: "req_name \<lparr>req_name = ''drop_index'', req_arguments = None\<rparr>
      \<notin> set [''search_logs'', ''get_trace'', ''tail_logs'', ''list_projects'',
         ''error_summary'', ''find_similar'']"
    by simp
  have 1: "tools_call (\<lambda>q p. Inr empty_response) 0 \<lparr>req_name = ''drop_index'', req_arguments = None\<rparr>
     = Inr \<lparr>result_content = Text ''Unknown tool: drop_index'', isError = True\<rparr>"
    using tools_call_total [of "\<lambda>q p. Inr empty_response" 0
        "\<lparr>req_name = ''drop_index'', req_arguments = None\<rparr>",
        THEN conjunct2, THEN conjunct1, THEN mp, OF n]
    by simp
  have e: "tool_switch (\<lambda>q p. Inl (Thrown ''connect ECONNREFUSED'')) 0
      (req_name \<lparr>req_name = ''list_projects'', req_arguments = None\<rparr>)
      (req_arguments \<lparr>req_name = ''list_projects'', req_arguments = None\<rparr>)
      = Inl (Thrown ''connect ECONNREFUSED'')"
    by (simp add: tool_switch_def list_projects_def)
  have 2: "tools_call (\<lambda>q p. Inl (Thrown ''connect ECONNREFUSED'')) 0
        \<lparr>req_name = ''list_projects'', req_arguments = None\<rparr>
     = Inr \<lparr>result_content = Text ''Error: connect ECONNREFUSED'', isError = True\<rparr>"
    using tools_call_total [of "\<lambda>q p. Inl (Thrown ''connect ECONNREFUSED'')" 0
        "\<lparr>req_name = ''list_projects'', req_arguments = None\<rparr>" "Thrown ''connect ECONNREFUSED''",
        THEN conjunct2, THEN conjunct2, THEN conjunct1, THEN mp, OF e]
    by simp
  have r: "tool_switch (\<lambda>q p. Inr empty_response) 0
      (req_name \<lparr>req_name = ''list_projects'', req_arguments = None\<rparr>)
      (req_arguments \<lparr>req_name = ''list_projects'', req_arguments = None\<rparr>)
      = Inr (ok_result (ProjectsJson
        \<lparr>totalLogs = Some 0, byProject = None, byLevel = None, byEnvironment = None\<rparr>))"
    by (simp add: tool_switch_def list_projects_def list_projects_out_def empty_response_def
        facet_of_def)
  have 3: "tools_call (\<lambda>q p. Inr empty_response) 0
        \<lparr>req_name = ''list_projects'', req_arguments = None\<rparr>
     = Inr (ok_result (ProjectsJson
        \<lparr>totalLogs = Some 0, byProject = None, byLevel = None, byEnvironment = None\<rparr>))"
    using tools_call_total [of "\<lambda>q p. Inr empty_response" 0
        "\<lparr>req_name = ''list_projects'', req_arguments = None\<rparr>" _
        "ok_result (ProjectsJson
        \<lparr>totalLogs = Some 0, byProject = None, byLevel = None, byEnvironment = None\<rparr>)",
        THEN conjunct2, THEN conjunct2, THEN conjunct2, THEN mp, OF r]
    by simp
  have a: "tool_switch (\<lambda>q p. Inr empty_response) 0
      (req_name \<lparr>req_name = ''get_trace'', req_arguments = None\<rparr>)
      (req_arguments \<lparr>req_name = ''get_trace'', req_arguments = None\<rparr>)
      = Inl (Thrown (''Cannot read properties of undefined (reading ''
              @ [CHR 0x27] @ ''traceId'' @ [CHR 0x27] @ '')''))"
    by (simp add: tool_switch_def get_trace_def read_args_def)
  have 4: "tools_call (\<lambda>q p. Inr empty_response) 0
        \<lparr>req_name = ''get_trace'', req_arguments = None\<rparr>
     = Inr \<lparr>result_content = Text (''Error: Cannot read properties of undefined (reading ''
              @ [CHR 0x27] @ ''traceId'' @ [CHR 0x27] @ '')''), isError = True\<rparr>"
    using tools_call_total [of "\<lambda>q p. Inr empty_response" 0
        "\<lparr>req_name = ''get_trace'', req_arguments = None\<rparr>"
        "Thrown (''Cannot read properties of undefined (reading ''
              @ [CHR 0x27] @ ''traceId'' @ [CHR 0x27] @ '')'')",
        THEN conjunct2, THEN conjunct2, THEN conjunct1, THEN mp, OF a]
    by simp
  show ?thesis
    by (rule conjI [OF 1 conjI [OF 2 conjI [OF 3 4]]])
qed

end
